theory Spec2Isabelle
  imports Main "HOL-Library.Word"
begin

section \<open>Characters, bytes and decimal numerals\<close>

text \<open>
  Python strings are modelled as \<open>string\<close>, file contents as lists of 8-bit words.
  A \<open>string\<close> is text that the output streams can encode; text that they cannot (a lone
  surrogate) is outside the model.
  The three control characters of the escape sequences are \<open>\033\<close> (also written
  \<open>\x1b\<close>), \<open>\a\<close> and \<open>\n\<close>.
\<close>

type_synonym byte = "8 word"

definition ESC :: char where
  "ESC = CHR 0x1B"

definition BEL :: char where
  "BEL = CHR 0x07"

definition NL :: char where
  "NL = CHR 0x0A"

text \<open>
  The decimal digits of a natural number, and the decimal text of an integer with its
  minus sign.
\<close>

definition digit_char :: "nat \<Rightarrow> char" where
  "digit_char d = ''0123456789'' ! d"

function str_nat :: "nat \<Rightarrow> string" where
  "str_nat n = (if n < 10 then [digit_char n] else str_nat (n div 10) @ [digit_char (n mod 10)])"
  by pat_completeness auto
termination
  by (relation "measure id") auto

declare str_nat.simps [simp del]

definition decimal :: "int \<Rightarrow> string" where
  "decimal i = (if i < 0 then CHR ''-'' # str_nat (nat (- i)) else str_nat (nat i))"

text \<open>\<open>sep.join(xs)\<close>.\<close>

fun join :: "string \<Rightarrow> string list \<Rightarrow> string" where
  "join sep [] = []"
| "join sep [x] = x"
| "join sep (x # y # ys) = x @ sep @ join sep (y # ys)"

section \<open>The base64 codec of the standard library\<close>

text \<open>
  Both scripts call \<open>base64.b64encode\<close> of the Python standard library. It is modelled
  after RFC 4648: three bytes make four 6-bit indices into the alphabet, and a last group
  of one or two bytes is padded with \<open>=\<close>. The decoder accepts exactly the padded
  groups of four characters over the alphabet and fails (\<open>None\<close>) on anything else.
\<close>

definition b64_alphabet :: string where
  "b64_alphabet = ''ABCDEFGHIJKLMNOPQRSTUVWXYZabcdefghijklmnopqrstuvwxyz0123456789+/''"

definition b64_char :: "nat \<Rightarrow> char" where
  "b64_char n = b64_alphabet ! n"

fun b64encode :: "byte list \<Rightarrow> string" where
  "b64encode [] = []"
| "b64encode [a] =
     (let x = unat a
      in [b64_char (x div 4), b64_char ((x mod 4) * 16), CHR ''='', CHR ''=''])"
| "b64encode [a, b] =
     (let x = unat a; y = unat b
      in [b64_char (x div 4), b64_char ((x mod 4) * 16 + y div 16),
          b64_char ((y mod 16) * 4), CHR ''=''])"
| "b64encode (a # b # c # rest) =
     (let x = unat a; y = unat b; z = unat c
      in [b64_char (x div 4), b64_char ((x mod 4) * 16 + y div 16),
          b64_char ((y mod 16) * 4 + z div 64), b64_char (z mod 64)]) @ b64encode rest"

fun index_of :: "'a \<Rightarrow> 'a list \<Rightarrow> nat option" where
  "index_of c [] = None"
| "index_of c (x # xs) = (if x = c then Some 0 else map_option Suc (index_of c xs))"

definition b64_index :: "char \<Rightarrow> nat option" where
  "b64_index c = index_of c b64_alphabet"

fun b64decode :: "string \<Rightarrow> byte list option" where
  "b64decode [] = Some []"
| "b64decode (c0 # c1 # c2 # c3 # rest) =
     (case (b64_index c0, b64_index c1) of
        (Some s0, Some s1) \<Rightarrow>
          (if c2 = CHR ''='' then
             (if c3 = CHR ''='' \<and> rest = [] then Some [of_nat (s0 * 4 + s1 div 16)] else None)
           else
             (case b64_index c2 of
                None \<Rightarrow> None
              | Some s2 \<Rightarrow>
                  (if c3 = CHR ''='' then
                     (if rest = []
                      then Some [of_nat (s0 * 4 + s1 div 16), of_nat ((s1 mod 16) * 16 + s2 div 4)]
                      else None)
                   else
                     (case b64_index c3 of
                        None \<Rightarrow> None
                      | Some s3 \<Rightarrow>
                          (case b64decode rest of
                             None \<Rightarrow> None
                           | Some bs \<Rightarrow>
                               Some (of_nat (s0 * 4 + s1 div 16)
                                     # of_nat ((s1 mod 16) * 16 + s2 div 4)
                                     # of_nat ((s2 mod 4) * 64 + s3) # bs))))))
      | _ \<Rightarrow> None)"
| "b64decode _ = None"

section \<open>The process and its environment\<close>

text \<open>
  The state of a run: everything written to the two output streams so far, the lines
  still waiting on standard input, and the time spent in \<open>time.sleep\<close>, counted in
  tenths of a second. Flushing is not visible at this level.
\<close>

record io =
  stdout :: string
  stderr :: string
  stdin :: "string list"
  slept :: nat

text \<open>
  The exceptions that the two scripts can meet. The \<open>OSError\<close>s of \<open>open\<close> carry the
  file name; \<open>ValueError\<close> is what the conversion of a very long integer to text raises.
\<close>

datatype exn =
    FileNotFoundError string
  | IsADirectoryError string
  | PermissionError string
  | ValueError
  | EOFError
  | KeyboardInterrupt
  | SystemExit nat

type_synonym cmd = "io \<Rightarrow> (exn + unit) \<times> io"

text \<open>
  The filesystem as the scripts see it: what a path resolves to, and the result of
  \<open>Path(dir).glob(pattern)\<close> as the list of the matching paths (each as \<open>str\<close> gives
  it), in the order the directory yields them. It does not change during a run.

  A path names nothing (\<open>None\<close>) or one of: a regular file that can be read; a regular file
  that \<open>open\<close> refuses; a directory; something that is neither a regular file nor a
  directory and that \<open>open\<close> can read (a device such as \<open>/dev/null\<close>, a FIFO), with the
  bytes it yields; or a path for which \<open>os.path.isfile\<close> and \<open>is_dir\<close> are false and
  \<open>open\<close> raises the given error (a path that runs through a file, a device without
  permission, a loop of links).
\<close>

datatype node =
    RegFile "byte list"
  | Unreadable
  | Directory
  | Special "byte list"
  | Blocked exn

record fsys =
  node_at :: "string \<Rightarrow> node option"
  glob :: "string \<Rightarrow> string \<Rightarrow> string list"

definition isfile :: "fsys \<Rightarrow> string \<Rightarrow> bool" where
  "isfile fs path =
     (case node_at fs path of
        Some (RegFile _) \<Rightarrow> True
      | Some Unreadable \<Rightarrow> True
      | _ \<Rightarrow> False)"

definition is_dir :: "fsys \<Rightarrow> string \<Rightarrow> bool" where
  "is_dir fs path = (node_at fs path = Some Directory)"

text \<open>\<open>with open(path, "rb") as f: f.read()\<close>.\<close>

definition read_file :: "fsys \<Rightarrow> string \<Rightarrow> exn + byte list" where
  "read_file fs path =
     (case node_at fs path of
        None \<Rightarrow> Inl (FileNotFoundError path)
      | Some Directory \<Rightarrow> Inl (IsADirectoryError path)
      | Some Unreadable \<Rightarrow> Inl (PermissionError path)
      | Some (Blocked e) \<Rightarrow> Inl e
      | Some (Special bs) \<Rightarrow> Inr bs
      | Some (RegFile bs) \<Rightarrow> Inr bs)"

definition write_out :: "string \<Rightarrow> io \<Rightarrow> io" where
  "write_out s st = st\<lparr>stdout := stdout st @ s\<rparr>"

definition write_err :: "string \<Rightarrow> io \<Rightarrow> io" where
  "write_err s st = st\<lparr>stderr := stderr st @ s\<rparr>"

text \<open>\<open>print(s)\<close> and \<open>print(s, file=sys.stderr)\<close> end the line.\<close>

definition py_print :: "string \<Rightarrow> io \<Rightarrow> io" where
  "py_print s = write_out (s @ [NL])"

definition py_print_err :: "string \<Rightarrow> io \<Rightarrow> io" where
  "py_print_err s = write_err (s @ [NL])"

text \<open>\<open>input()\<close> takes one line, and raises \<open>EOFError\<close> when there is none.\<close>

definition py_input :: cmd where
  "py_input st =
     (case stdin st of
        [] \<Rightarrow> (Inl EOFError, st)
      | l # ls \<Rightarrow> (Inr (), st\<lparr>stdin := ls\<rparr>))"

definition sleep :: "nat \<Rightarrow> io \<Rightarrow> io" where
  "sleep tenths st = st\<lparr>slept := slept st + tenths\<rparr>"

text \<open>A statement that cannot raise, and a block of statements run in order.\<close>

definition ok :: "(io \<Rightarrow> io) \<Rightarrow> cmd" where
  "ok f st = (Inr (), f st)"

fun run :: "cmd list \<Rightarrow> cmd" where
  "run [] st = (Inr (), st)"
| "run (c # cs) st =
     (case c st of
        (Inl e, st') \<Rightarrow> (Inl e, st')
      | (Inr _, st') \<Rightarrow> run cs st')"

text \<open>
  The status a script ends with: 0 when it runs to its end, the argument of
  \<open>sys.exit\<close>, and 1 for any other exception that nothing catches (130 is what a shell
  reports after an interrupt that nothing catches).
\<close>

fun exit_code :: "exn + unit \<Rightarrow> nat" where
  "exit_code (Inr _) = 0"
| "exit_code (Inl (SystemExit n)) = n"
| "exit_code (Inl KeyboardInterrupt) = 130"
| "exit_code (Inl _) = 1"

section \<open>\<open>contrib/load_image.py\<close>\<close>

definition load_image :: "fsys \<Rightarrow> string list \<Rightarrow> cmd" where
  "load_image fs argv st =
     (if length argv < 2 then
        (Inl (SystemExit 1), py_print ''Usage: python im.py <image_path>'' st)
      else
        (let filename = argv ! 1
         in case read_file fs filename of
              Inl e \<Rightarrow> (Inl e, st)
            | Inr data \<Rightarrow>
                (let b64data = b64encode data
                 in (Inr (), py_print (ESC # '']1337;File=inline=1:'' @ b64data @ [BEL]) st))))"

section \<open>\<open>contrib/advanced_image_demo.py\<close>: the sequence builder and the cursor helpers\<close>

text \<open>
  The options are a Python \<open>dict\<close>, iterated in insertion order: a list of pairs whose
  keys are distinct.
\<close>

type_synonym options = "(string \<times> string) list"

definition build_opts :: "options \<Rightarrow> string list" where
  "build_opts options = ''inline=1'' # map (\<lambda>(key, val). key @ ''='' @ val) options"

text \<open>The text of the f-string \<open>"\033]1337;File={';'.join(opts)}:{image_data}\a"\<close>.\<close>

definition escape_sequence :: "string list \<Rightarrow> string \<Rightarrow> string" where
  "escape_sequence opts image_data =
     ESC # '']1337;File='' @ join '';'' opts @ '':'' @ image_data @ [BEL]"

definition display_image :: "fsys \<Rightarrow> string \<Rightarrow> options \<Rightarrow> cmd" where
  "display_image fs path options st =
     (if \<not> isfile fs path then
        (Inr (), py_print_err (''Error: Image file not found: '' @ path) st)
      else
        (case read_file fs path of
           Inl e \<Rightarrow> (Inl e, st)
         | Inr data \<Rightarrow>
             (let image_data = b64encode data;
                  opts = build_opts options
              in (Inr (), write_out (escape_sequence opts image_data) st))))"

text \<open>
  The option list of an emitted sequence as its reader takes it from the wire format
  \<open>ESC ] 1337 ; File = options : payload BEL\<close>: the text after \<open>File=\<close> up to the first
  \<open>:\<close>, split at every \<open>;\<close> (as \<open>str.split\<close> does). This is not code of the scripts;
  it is what the claims about the emitted option list are stated with.
\<close>

fun split_on :: "char \<Rightarrow> string \<Rightarrow> string list" where
  "split_on sep [] = [[]]"
| "split_on sep (c # cs) =
     (if c = sep then [] # split_on sep cs
      else (case split_on sep cs of
              [] \<Rightarrow> [[c]]
            | t # ts \<Rightarrow> (c # t) # ts))"

definition emitted_options :: "string \<Rightarrow> string list" where
  "emitted_options text =
     split_on CHR '';'' (takeWhile (\<lambda>c. c \<noteq> CHR '':'') (drop (length (ESC # '']1337;File='')) text))"

definition clear_screen :: "io \<Rightarrow> io" where
  "clear_screen = write_out (ESC # ''[2J'' @ ESC # ''[H'')"

text \<open>
  \<open>str(i)\<close> of a Python integer, as an f-string field \<open>{i}\<close> computes it: CPython refuses
  to convert an integer of more than 4300 decimal digits (its default limit, the sign not
  counted) and raises \<open>ValueError\<close>.
\<close>

definition max_str_digits :: nat where
  "max_str_digits = 4300"

definition str_int :: "int \<Rightarrow> exn + string" where
  "str_int i =
     (if max_str_digits < length (str_nat (nat (abs i))) then Inl ValueError
      else Inr (decimal i))"

text \<open>
  The text of the f-string \<open>"\033[{row};{col}H"\<close> when both fields convert; the fields
  are converted from left to right, before anything is written.
\<close>

definition cursor_sequence :: "int \<Rightarrow> int \<Rightarrow> string" where
  "cursor_sequence row col = ESC # ''['' @ decimal row @ '';'' @ decimal col @ ''H''"

definition move_cursor :: "int \<Rightarrow> int \<Rightarrow> cmd" where
  "move_cursor row col st =
     (case str_int row of
        Inl e \<Rightarrow> (Inl e, st)
      | Inr r \<Rightarrow>
          (case str_int col of
             Inl e \<Rightarrow> (Inl e, st)
           | Inr c \<Rightarrow> (Inr (), write_out (ESC # ''['' @ r @ '';'' @ c @ ''H'') st)))"

section \<open>\<open>contrib/advanced_image_demo.py\<close>: the demo phases\<close>

text \<open>
  \<open>next(image_dir.glob("*.jpg"), None) or next(image_dir.glob("*.png"), None)\<close>:
  the first JPG if there is one, else the first PNG, else \<open>None\<close>.
\<close>

definition find_sample :: "fsys \<Rightarrow> string \<Rightarrow> string option" where
  "find_sample fs image_dir =
     (case glob fs image_dir ''*.jpg'' of
        p # _ \<Rightarrow> Some p
      | [] \<Rightarrow> (case glob fs image_dir ''*.png'' of p # _ \<Rightarrow> Some p | [] \<Rightarrow> None))"

definition demo_basic :: "fsys \<Rightarrow> string \<Rightarrow> cmd" where
  "demo_basic fs image_dir =
     run [ok clear_screen,
          ok (py_print ''GT Terminal Advanced Image Demo - Basic Display''),
          ok (py_print ''==============================================''),
          ok (py_print []),
          (case find_sample fs image_dir of
             None \<Rightarrow> ok (py_print ''No sample images found in the directory.'')
           | Some sample_img \<Rightarrow>
               run [ok (py_print ''1. Default size (auto):''),
                    display_image fs sample_img [],
                    ok (py_print (replicate 8 NL)),
                    ok (py_print ''2. Fixed width (400px):''),
                    display_image fs sample_img [(''width'', ''400px'')],
                    ok (py_print (replicate 8 NL)),
                    ok (py_print ''3. Fixed height (200px):''),
                    display_image fs sample_img [(''height'', ''200px'')],
                    ok (py_print (replicate 8 NL)),
                    ok (py_print ''4. Percentage width (50%):''),
                    display_image fs sample_img [(''width'', ''50%'')],
                    ok (py_print (replicate 8 NL)),
                    ok (py_print ''Press Enter to continue...''),
                    py_input])]"

definition demo_alignment :: "fsys \<Rightarrow> string \<Rightarrow> cmd" where
  "demo_alignment fs image_dir =
     run [ok clear_screen,
          ok (py_print ''GT Terminal Advanced Image Demo - Alignment''),
          ok (py_print ''=========================================''),
          ok (py_print []),
          (case find_sample fs image_dir of
             None \<Rightarrow> ok (py_print ''No sample images found in the directory.'')
           | Some sample_img \<Rightarrow>
               run [ok (py_print ''1. Left alignment (default):''),
                    display_image fs sample_img [(''width'', ''200px''), (''align'', ''left'')],
                    ok (py_print (replicate 5 NL)),
                    ok (py_print ''2. Center alignment:''),
                    display_image fs sample_img [(''width'', ''200px''), (''align'', ''center'')],
                    ok (py_print (replicate 5 NL)),
                    ok (py_print ''3. Right alignment:''),
                    display_image fs sample_img [(''width'', ''200px''), (''align'', ''right'')],
                    ok (py_print (replicate 5 NL)),
                    ok (py_print ''Press Enter to continue...''),
                    py_input])]"

definition demo_z_index :: "fsys \<Rightarrow> string \<Rightarrow> cmd" where
  "demo_z_index fs image_dir =
     run [ok clear_screen,
          ok (py_print ''GT Terminal Advanced Image Demo - Z-index Layering''),
          ok (py_print ''================================================''),
          ok (py_print []),
          (case glob fs image_dir ''*.jpg'' @ glob fs image_dir ''*.png'' of
             img1 # img2 # _ \<Rightarrow>
               run [ok (py_print ''Displaying overlapping images with different z-index values:''),
                    ok (py_print ''(Notice how they stack on top of each other)''),
                    ok (py_print []),
                    move_cursor 6 5,
                    display_image fs img1
                      [(''width'', ''40%''), (''z-index'', ''1''), (''name'', ''back_image'')],
                    ok (sleep 5),
                    move_cursor 8 15,
                    display_image fs img2
                      [(''width'', ''40%''), (''z-index'', ''2''), (''name'', ''front_image'')],
                    move_cursor 15 1,
                    ok (py_print
                      ''Second image (z-index=2) appears on top of the first image (z-index=1)''),
                    ok (py_print []),
                    ok (py_print ''Press Enter to continue...''),
                    py_input]
           | _ \<Rightarrow> ok (py_print ''Need at least 2 images for the z-index demo.''))]"

subsection \<open>The animation phase\<close>

text \<open>
  The body of the \<open>try\<close> statement is a sequence of calls: the background, then for each
  \<open>i\<close> of \<open>range(100)\<close> a cursor move, a frame and a sleep of a tenth of a second.
\<close>

definition frame_row :: "nat \<Rightarrow> int" where
  "frame_row i = 7 + abs (int (i mod 20) - 10)"

definition frame_col :: "nat \<Rightarrow> int" where
  "frame_col i = 10 + int (i mod 40)"

text \<open>The two dictionaries of options that the phase passes to \<open>display_image\<close>.\<close>

definition background_opts :: options where
  "background_opts =
     [(''width'', ''80%''), (''height'', ''80%''), (''align'', ''center''), (''z-index'', ''1''),
      (''name'', ''background''), (''persistent'', ''1'')]"

definition frame_opts :: options where
  "frame_opts =
     [(''width'', ''100px''), (''height'', ''100px''), (''z-index'', ''2''),
      (''name'', ''animation_frame'')]"

definition animation_frame :: "fsys \<Rightarrow> string \<Rightarrow> nat \<Rightarrow> cmd list" where
  "animation_frame fs sample_img i =
     [move_cursor (frame_row i) (frame_col i),
      display_image fs sample_img frame_opts,
      ok (sleep 1)]"

definition animation_try :: "fsys \<Rightarrow> string \<Rightarrow> cmd list" where
  "animation_try fs sample_img =
     [move_cursor 5 1, display_image fs sample_img background_opts]
     @ concat (map (animation_frame fs sample_img) [0..<100])"

text \<open>
  What a call of \<open>display_image\<close> that returns adds to standard output (the escape
  sequence, or nothing when the path is no file) and to standard error (nothing, or the
  error line), and what one iteration of the loop adds to standard output.
\<close>

definition image_text :: "fsys \<Rightarrow> string \<Rightarrow> options \<Rightarrow> string" where
  "image_text fs path options =
     (case node_at fs path of
        Some (RegFile data) \<Rightarrow> escape_sequence (build_opts options) (b64encode data)
      | _ \<Rightarrow> [])"

definition error_text :: "fsys \<Rightarrow> string \<Rightarrow> string" where
  "error_text fs path =
     (if isfile fs path then [] else ''Error: Image file not found: '' @ path @ [NL])"

definition frame_text :: "fsys \<Rightarrow> string \<Rightarrow> nat \<Rightarrow> string" where
  "frame_text fs sample_img i =
     cursor_sequence (frame_row i) (frame_col i) @ image_text fs sample_img frame_opts"

text \<open>The change of state by a statement that only writes and sleeps.\<close>

definition effect :: "string \<Rightarrow> string \<Rightarrow> nat \<Rightarrow> io \<Rightarrow> io" where
  "effect out err t st =
     st\<lparr>stdout := stdout st @ out, stderr := stderr st @ err, slept := slept st + t\<rparr>"

text \<open>
  A user's interrupt (Ctrl+C) is given by the number of calls of the block that are
  completed before \<open>KeyboardInterrupt\<close> is raised; \<open>None\<close> is a run without interrupt,
  and an interrupt that comes after the last call of the block is not raised in it.
\<close>

fun run_intr :: "nat option \<Rightarrow> cmd list \<Rightarrow> cmd" where
  "run_intr intr [] st = (Inr (), st)"
| "run_intr intr (c # cs) st =
     (if intr = Some 0 then (Inl KeyboardInterrupt, st)
      else
        (case c st of
           (Inl e, st') \<Rightarrow> (Inl e, st')
         | (Inr _, st') \<Rightarrow> run_intr (map_option (\<lambda>n. n - 1) intr) cs st'))"

text \<open>\<open>try: ... except KeyboardInterrupt: print("\nAnimation stopped.")\<close>\<close>

definition animation_guarded :: "fsys \<Rightarrow> string \<Rightarrow> nat option \<Rightarrow> cmd" where
  "animation_guarded fs sample_img intr st =
     (case run_intr intr (animation_try fs sample_img) st of
        (Inl KeyboardInterrupt, st') \<Rightarrow> (Inr (), py_print (NL # ''Animation stopped.'') st')
      | r \<Rightarrow> r)"

definition demo_animation :: "fsys \<Rightarrow> string \<Rightarrow> nat option \<Rightarrow> cmd" where
  "demo_animation fs image_dir intr =
     run [ok clear_screen,
          ok (py_print ''GT Terminal Advanced Image Demo - Animation''),
          ok (py_print ''=========================================''),
          ok (py_print ''Press Ctrl+C to stop the animation''),
          ok (py_print []),
          (case find_sample fs image_dir of
             None \<Rightarrow> ok (py_print ''No sample images found in the directory.'')
           | Some sample_img \<Rightarrow>
               run [animation_guarded fs sample_img intr,
                    move_cursor 25 1,
                    ok (py_print ''Press Enter to continue...''),
                    py_input])]"

subsection \<open>\<open>main\<close>\<close>

text \<open>
  \<open>str(e)\<close> for the exceptions above (the file name as \<open>repr\<close> shows a name without
  quotes, backslashes or unprintable characters).
\<close>

fun exn_str :: "exn \<Rightarrow> string" where
  "exn_str (FileNotFoundError p) = ''[Errno 2] No such file or directory: '' @ [CHR 0x27] @ p @ [CHR 0x27]"
| "exn_str (IsADirectoryError p) = ''[Errno 21] Is a directory: '' @ [CHR 0x27] @ p @ [CHR 0x27]"
| "exn_str (PermissionError p) = ''[Errno 13] Permission denied: '' @ [CHR 0x27] @ p @ [CHR 0x27]"
| "exn_str ValueError = ''Exceeds the limit (4300 digits) for integer string conversion''"
| "exn_str EOFError = ''EOF when reading a line''"
| "exn_str KeyboardInterrupt = []"
| "exn_str (SystemExit n) = str_nat n"

text \<open>\<open>except Exception\<close> catches neither \<open>KeyboardInterrupt\<close> nor \<open>SystemExit\<close>.\<close>

fun is_Exception :: "exn \<Rightarrow> bool" where
  "is_Exception KeyboardInterrupt = False"
| "is_Exception (SystemExit _) = False"
| "is_Exception _ = True"

text \<open>
  \<open>main\<close> after \<open>parse_args\<close>: \<open>image_dir\<close> is the directory given with
  \<open>--image-dir\<close> (\<open>.\<close> by default), as \<open>str\<close> of the \<open>Path\<close> gives it. The interrupt
  is the one of the animation phase. The number of images is the length of a Python list,
  which is below \<open>2^63\<close> and so far below the limit of the conversion to text.
\<close>

definition main :: "fsys \<Rightarrow> string \<Rightarrow> nat option \<Rightarrow> cmd" where
  "main fs image_dir intr st =
     (if \<not> is_dir fs image_dir then
        (Inl (SystemExit 1), py_print_err (''Error: Image directory not found: '' @ image_dir) st)
      else
        (let image_count = length (glob fs image_dir ''*.jpg'' @ glob fs image_dir ''*.png'')
         in if image_count = 0 then
              (Inl (SystemExit 1),
               py_print_err (''Error: No JPG or PNG images found in '' @ image_dir) st)
            else
              (case run [demo_basic fs image_dir,
                         demo_alignment fs image_dir,
                         demo_z_index fs image_dir,
                         demo_animation fs image_dir intr,
                         ok clear_screen,
                         ok (py_print ''GT Terminal Advanced Image Demo - Complete''),
                         ok (py_print ''========================================''),
                         ok (py_print ''Thank you for trying the advanced image features!'')]
                      (py_print (''Found '' @ str_nat image_count @ '' images in '' @ image_dir) st)
               of
                 (Inl e, st') \<Rightarrow>
                   (if is_Exception e
                    then (Inl (SystemExit 1), py_print_err (''Demo error: '' @ exn_str e) st')
                    else (Inl e, st'))
               | (Inr u, st') \<Rightarrow> (Inr u, st'))))"

section \<open>Concrete environments\<close>

definition io0 :: io where
  "io0 = \<lparr>stdout = [], stderr = [], stdin = [], slept = 0\<rparr>"

definition four_enters :: io where
  "four_enters = \<lparr>stdout = [], stderr = [], stdin = [[], [], [], []], slept = 0\<rparr>"

definition example_fs :: fsys where
  "example_fs =
     \<lparr>node_at = (\<lambda>p.
        if p = ''ten.bin'' then Some (RegFile [0, 1, 2, 3, 4, 5, 6, 7, 8, 9])
        else if p = ''pics'' \<or> p = ''empty'' \<or> p = ''ghost'' then Some Directory
        else if p = ''pics/a.jpg'' then Some (RegFile [0xFF, 0xD8, 0xFF])
        else if p = ''pics/b.png'' then Some (RegFile [0x89, 0x50, 0x4E, 0x47])
        else if p = ''/dev/null'' then Some (Special [])
        else if p = ''mixed'' then Some Directory
        else if p = ''mixed/b.png'' then Some (RegFile [0x89, 0x50, 0x4E, 0x47])
        else None),
      glob = (\<lambda>d pat.
        if d = ''pics'' \<and> pat = ''*.jpg'' then [''pics/a.jpg'']
        else if d = ''pics'' \<and> pat = ''*.png'' then [''pics/b.png'']
        else if d = ''ghost'' \<and> pat = ''*.jpg'' then [''ghost/x.jpg'']
        else if d = ''mixed'' \<and> pat = ''*.jpg'' then [''mixed/gone.jpg'']
        else if d = ''mixed'' \<and> pat = ''*.png'' then [''mixed/b.png'']
        else [])\<rparr>"

section \<open>Properties of the codec\<close>

lemma index_of_nth: "distinct xs \<Longrightarrow> n < length xs \<Longrightarrow> index_of (xs ! n) xs = Some n"
proof (induction xs arbitrary: n)
  case Nil
  then show ?case by simp
next
  case (Cons x xs)
  then show ?case by (cases n) auto
qed

lemma b64_alphabet_length: "length b64_alphabet = 64"
  by (simp add: b64_alphabet_def)

lemma b64_alphabet_distinct: "distinct b64_alphabet"
  by (simp add: b64_alphabet_def)

lemma b64_index_char: "n < 64 \<Longrightarrow> b64_index (b64_char n) = Some n"
  by (simp add: b64_index_def b64_char_def index_of_nth b64_alphabet_distinct b64_alphabet_length)

lemma b64_pad_notin: "CHR ''='' \<notin> set b64_alphabet"
  by (simp add: b64_alphabet_def)

lemma b64_char_not_pad: "n < 64 \<Longrightarrow> b64_char n \<noteq> CHR ''=''"
proof
  assume n: "n < 64" and eq: "b64_char n = CHR ''=''"
  from n have "b64_alphabet ! n \<in> set b64_alphabet"
    by (simp add: b64_alphabet_length)
  with eq b64_pad_notin show False
    by (simp add: b64_char_def)
qed

lemma byte_bound: "unat (a :: byte) < 256"
  using unsigned_less [of a, where ?'a = nat] by simp

lemma sextets:
  fixes x y z :: nat
  assumes "x < 256" "y < 256" "z < 256"
  shows "x div 4 < 64" "(x mod 4) * 16 < 64" "(x mod 4) * 16 + y div 16 < 64"
    "(y mod 16) * 4 < 64" "(y mod 16) * 4 + z div 64 < 64" "z mod 64 < 64"
proof -
  have m: "x mod 4 < 4" "y mod 16 < 16" by simp_all
  have d: "x div 4 < 64" "y div 16 < 16" "z div 64 < 4"
    using assms by (simp_all add: less_mult_imp_div_less)
  show "x div 4 < 64" by (rule d)
  show "(x mod 4) * 16 < 64" using m by linarith
  show "(x mod 4) * 16 + y div 16 < 64" using m d by linarith
  show "(y mod 16) * 4 < 64" using m by linarith
  show "(y mod 16) * 4 + z div 64 < 64" using m d by linarith
  show "z mod 64 < 64" by simp
qed

lemma regroup:
  fixes x y z :: nat
  assumes "x < 256" "y < 256" "z < 256"
  shows "(x div 4) * 4 + ((x mod 4) * 16 + y div 16) div 16 = x"
    "(x div 4) * 4 + ((x mod 4) * 16) div 16 = x"
    "(((x mod 4) * 16 + y div 16) mod 16) * 16 + ((y mod 16) * 4 + z div 64) div 4 = y"
    "(((x mod 4) * 16 + y div 16) mod 16) * 16 + ((y mod 16) * 4) div 4 = y"
    "(((y mod 16) * 4 + z div 64) mod 4) * 64 + z mod 64 = z"
proof -
  have d: "y div 16 < 16" "z div 64 < 4"
    using assms by (simp_all add: less_mult_imp_div_less)
  show "(x div 4) * 4 + ((x mod 4) * 16 + y div 16) div 16 = x"
    using d by simp
  show "(x div 4) * 4 + ((x mod 4) * 16) div 16 = x"
    by simp
  show "(((x mod 4) * 16 + y div 16) mod 16) * 16 + ((y mod 16) * 4 + z div 64) div 4 = y"
    using d by simp
  show "(((x mod 4) * 16 + y div 16) mod 16) * 16 + ((y mod 16) * 4) div 4 = y"
    using d by simp
  show "(((y mod 16) * 4 + z div 64) mod 4) * 64 + z mod 64 = z"
    using d by simp
qed

text \<open>
  C3: for every non-empty byte sequence \<open>B\<close>, decoding the base64 text that the
  encoder produces for \<open>B\<close> gives back exactly \<open>B\<close>.
\<close>

theorem base64_round_trip: "B \<noteq> [] \<Longrightarrow> b64decode (b64encode B) = Some B"
proof (induction B rule: b64encode.induct)
  case 1
  then show ?case by simp
next
  case (2 a)
  show ?case
    using byte_bound [of a]
    by (simp add: Let_def b64_index_char b64_char_not_pad sextets regroup)
next
  case (3 a b)
  show ?case
    using byte_bound [of a] byte_bound [of b]
    by (simp add: Let_def b64_index_char b64_char_not_pad sextets regroup)
next
  case (4 a b c rest)
  have rest: "b64decode (b64encode rest) = Some rest"
  proof (cases "rest = []")
    case True
    then show ?thesis by simp
  next
    case False
    then show ?thesis by (rule "4.IH")
  qed
  show ?case
    using byte_bound [of a] byte_bound [of b] byte_bound [of c]
    by (simp add: Let_def rest b64_index_char b64_char_not_pad sextets regroup)
qed

theorem base64_round_trip_witness:
  "[0x89, 0x50, 0x4E, 0x47 :: byte] \<noteq> []
   \<and> b64encode [0x89, 0x50, 0x4E, 0x47] = ''iVBORw==''
   \<and> b64decode ''iVBORw=='' = Some [0x89, 0x50, 0x4E, 0x47]"
proof -
  have ne: "[0x89, 0x50, 0x4E, 0x47 :: byte] \<noteq> []" by simp
  have enc: "b64encode [0x89, 0x50, 0x4E, 0x47] = ''iVBORw==''"
    by (simp add: b64_char_def b64_alphabet_def)
  have "b64decode (b64encode [0x89, 0x50, 0x4E, 0x47]) = Some [0x89, 0x50, 0x4E, 0x47]"
    by (rule base64_round_trip [OF ne])
  then have dec: "b64decode ''iVBORw=='' = Some [0x89, 0x50, 0x4E, 0x47]"
    by (simp only: enc)
  from ne enc dec show ?thesis by blast
qed

lemma b64encode_ten: "b64encode [0, 1, 2, 3, 4, 5, 6, 7, 8, 9] = ''AAECAwQFBgcICQ==''"
  by (simp add: b64_char_def b64_alphabet_def)

lemma read_file_regular: "node_at fs path = Some (RegFile data) \<Longrightarrow> read_file fs path = Inr data"
  by (simp add: read_file_def)

section \<open>The one-shot script\<close>

text \<open>
  C1, as amended: run on a file that holds the ten bytes \<open>0x00\<close> to \<open>0x09\<close>,
  \<open>load_image.py\<close> writes to standard output exactly
  \<open>\x1b]1337;File=inline=1:AAECAwQFBgcICQ==\a\<close> followed by the newline of \<open>print\<close>.
\<close>

theorem load_image_ten_bytes:
  assumes "2 \<le> length argv"
    and "node_at fs (argv ! 1) = Some (RegFile [0, 1, 2, 3, 4, 5, 6, 7, 8, 9])"
  shows "load_image fs argv st =
    (Inr (), st\<lparr>stdout := stdout st @ CHR 0x1B # '']1337;File=inline=1:AAECAwQFBgcICQ=='' @ [CHR 0x07, CHR 0x0A]\<rparr>)"
  using assms
  by (simp add: load_image_def read_file_regular b64encode_ten py_print_def write_out_def
      ESC_def BEL_def NL_def del: b64encode.simps)

theorem load_image_ten_bytes_witness:
  "2 \<le> length [''load_image.py'', ''ten.bin'']
   \<and> node_at example_fs ([''load_image.py'', ''ten.bin''] ! 1)
       = Some (RegFile [0, 1, 2, 3, 4, 5, 6, 7, 8, 9])
   \<and> load_image example_fs [''load_image.py'', ''ten.bin''] io0 =
       (Inr (), io0\<lparr>stdout := stdout io0 @ CHR 0x1B # '']1337;File=inline=1:AAECAwQFBgcICQ=='' @ [CHR 0x07, CHR 0x0A]\<rparr>)"
proof -
  have len: "2 \<le> length [''load_image.py'', ''ten.bin'']" by simp
  have node: "node_at example_fs ([''load_image.py'', ''ten.bin''] ! 1)
       = Some (RegFile [0, 1, 2, 3, 4, 5, 6, 7, 8, 9])"
    by (simp add: example_fs_def)
  from len node load_image_ten_bytes [OF len node, of io0] show ?thesis by blast
qed

text \<open>
  C1 as it is written fails: the output is not \<open>\x1b]1337;File=inline=1:AAECAwQFBgcI\a\<close>
  (that payload encodes nine bytes only, and \<open>print\<close> ends the line).
\<close>

theorem load_image_ten_bytes_counterexample:
  "stdout (snd (load_image example_fs [''load_image.py'', ''ten.bin''] io0))
   \<noteq> CHR 0x1B # '']1337;File=inline=1:AAECAwQFBgcI'' @ [CHR 0x07]"
  by (simp add: load_image_def read_file_def example_fs_def io0_def py_print_def write_out_def
      ESC_def BEL_def NL_def b64_char_def b64_alphabet_def)


section \<open>The sequence builder\<close>

lemma join_Cons: "join sep (x # xs) = x @ concat (map (\<lambda>s. sep @ s) xs)"
  by (induction xs arbitrary: x) simp_all

lemma options_string:
  "join '';'' (build_opts opts) =
     ''inline=1'' @ concat (map (\<lambda>(k, v). '';'' @ k @ ''='' @ v) opts)"
  by (simp add: build_opts_def join_Cons comp_def case_prod_unfold del: join.simps)

lemma display_image_regular:
  assumes "node_at fs path = Some (RegFile data)"
  shows "display_image fs path opts st =
    (Inr (), write_out (escape_sequence (build_opts opts) (b64encode data)) st)"
  using assms by (simp add: display_image_def isfile_def read_file_def)

lemma token_width_400px:
  "k @ CHR ''='' # v = ''width=400px'' \<longleftrightarrow> k = ''width'' \<and> v = ''400px''"
  by (auto simp: append_eq_Cons_conv)

lemma count_list_distinct_keys:
  assumes "distinct (map fst opts)" and "(k, v) \<in> set opts"
  shows "count_list opts (k, v) = 1"
  using assms
proof (induction opts)
  case Nil
  then show ?case by simp
next
  case (Cons p opts)
  show ?case
  proof (cases "p = (k, v)")
    case True
    with Cons.prems have "(k, v) \<notin> set opts" by force
    with True show ?thesis by simp
  next
    case False
    with Cons show ?thesis by auto
  qed
qed

lemma count_width_tokens:
  "count_list (map (\<lambda>(key, val). key @ CHR ''='' # val) opts) ''width=400px''
   = count_list opts (''width'', ''400px'')"
  by (induction opts) (auto simp: token_width_400px)

lemma split_on_plain: "sep \<notin> set x \<Longrightarrow> split_on sep x = [x]"
  by (induction x) auto

lemma split_on_token:
  "sep \<notin> set x \<Longrightarrow> split_on sep (x @ sep # rest) = x # split_on sep rest"
  by (induction x) auto

lemma split_on_join:
  assumes "\<forall>y \<in> set (x # xs). sep \<notin> set y"
  shows "split_on sep (x @ concat (map (\<lambda>s. sep # s) xs)) = x # xs"
  using assms
proof (induction xs arbitrary: x)
  case Nil
  then show ?case by (simp add: split_on_plain)
next
  case (Cons y ys)
  then have "split_on sep (y @ concat (map (\<lambda>s. sep # s) ys)) = y # ys"
    by simp
  with Cons.prems show ?case
    by (simp add: split_on_token)
qed

lemma emitted_options_sequence:
  "emitted_options (escape_sequence (build_opts opts) payload) =
     split_on CHR '';'' (''inline=1'' @ takeWhile (\<lambda>c. c \<noteq> CHR '':'')
       (concat (map (\<lambda>(k, v). '';'' @ k @ ''='' @ v) opts) @ '':'' @ payload @ [BEL]))"
  unfolding emitted_options_def escape_sequence_def options_string
  by simp

lemma first_token:
  "hd (split_on CHR '';'' (''inline=1'' @ takeWhile (\<lambda>c. c \<noteq> CHR '':'')
       (concat (map (\<lambda>(k, v). '';'' @ k @ ''='' @ v) opts) @ '':'' @ rest))) = ''inline=1''"
proof (cases opts)
  case Nil
  then show ?thesis by simp
next
  case (Cons kv more)
  obtain k v where kv: "kv = (k, v)" by (cases kv)
  show ?thesis
    by (simp add: Cons kv split: list.splits)
qed

lemma options_text_plain:
  assumes "\<forall>(k, v) \<in> set opts. CHR '':'' \<notin> set k \<and> CHR '':'' \<notin> set v"
  shows "takeWhile (\<lambda>c. c \<noteq> CHR '':'')
       (concat (map (\<lambda>(k, v). '';'' @ k @ ''='' @ v) opts) @ '':'' @ rest)
     = concat (map (\<lambda>(k, v). '';'' @ k @ ''='' @ v) opts)"
  using assms
proof (induction opts)
  case Nil
  show ?case by simp
next
  case (Cons kv opts)
  obtain k v where kv: "kv = (k, v)" by (cases kv)
  from Cons.prems kv have k: "\<And>c. c \<in> set k \<Longrightarrow> c \<noteq> CHR '':''"
    and v: "\<And>c. c \<in> set v \<Longrightarrow> c \<noteq> CHR '':''"
    by auto
  from Cons have "takeWhile (\<lambda>c. c \<noteq> CHR '':'')
       (concat (map (\<lambda>(k, v). '';'' @ k @ ''='' @ v) opts) @ '':'' @ rest)
     = concat (map (\<lambda>(k, v). '';'' @ k @ ''='' @ v) opts)"
    by simp
  then show ?case
    by (simp add: kv takeWhile_append2 k v)
qed

lemma emitted_options_plain:
  assumes "\<forall>(k, v) \<in> set opts. CHR '';'' \<notin> set k \<and> CHR '':'' \<notin> set k
      \<and> CHR '';'' \<notin> set v \<and> CHR '':'' \<notin> set v"
  shows "emitted_options (escape_sequence (build_opts opts) payload) = build_opts opts"
proof -
  have colon: "\<forall>(k, v) \<in> set opts. CHR '':'' \<notin> set k \<and> CHR '':'' \<notin> set v"
    using assms by fastforce
  have tokens: "\<forall>y \<in> set (''inline=1'' # map (\<lambda>(k, v). k @ ''='' @ v) opts). CHR '';'' \<notin> set y"
    using assms by fastforce
  have "concat (map (\<lambda>(k, v). '';'' @ k @ ''='' @ v) opts)
      = concat (map (\<lambda>s. CHR '';'' # s) (map (\<lambda>(k, v). k @ ''='' @ v) opts))"
    by (simp add: comp_def case_prod_unfold)
  then have "emitted_options (escape_sequence (build_opts opts) payload) =
      split_on CHR '';'' (''inline=1''
        @ concat (map (\<lambda>s. CHR '';'' # s) (map (\<lambda>(k, v). k @ ''='' @ v) opts)))"
    unfolding emitted_options_sequence options_text_plain [OF colon] by simp
  also have "\<dots> = ''inline=1'' # map (\<lambda>(k, v). k @ ''='' @ v) opts"
    by (rule split_on_join [OF tokens])
  finally show ?thesis
    by (simp add: build_opts_def)
qed

text \<open>
  C2 as it is written fails: with the distinct keys \<open>a\<close> and \<open>width\<close> and the value
  \<open>b;width=400px\<close> for \<open>a\<close>, the emitted option list holds \<open>width=400px\<close> twice; and with
  a value that holds \<open>:\<close> before the entry, the emitted option list ends early and does not
  hold it at all.
\<close>

theorem display_image_options_counterexample:
  "distinct (map fst [(''a'', ''b;width=400px''), (''width'', ''400px'')])
   \<and> display_image example_fs ''pics/a.jpg''
        [(''a'', ''b;width=400px''), (''width'', ''400px'')] io0 =
      (Inr (), io0\<lparr>stdout :=
         CHR 0x1B # '']1337;File=inline=1;a=b;width=400px;width=400px:/9j/'' @ [CHR 0x07]\<rparr>)
   \<and> count_list (emitted_options
         (CHR 0x1B # '']1337;File=inline=1;a=b;width=400px;width=400px:/9j/'' @ [CHR 0x07]))
       ''width=400px'' = 2
   \<and> display_image example_fs ''pics/a.jpg''
        [(''t'', ''a:b''), (''width'', ''400px'')] io0 =
      (Inr (), io0\<lparr>stdout :=
         CHR 0x1B # '']1337;File=inline=1;t=a:b;width=400px:/9j/'' @ [CHR 0x07]\<rparr>)
   \<and> emitted_options (CHR 0x1B # '']1337;File=inline=1;t=a:b;width=400px:/9j/'' @ [CHR 0x07])
       = [''inline=1'', ''t=a'']"
proof -
  have node: "node_at example_fs ''pics/a.jpg'' = Some (RegFile [0xFF, 0xD8, 0xFF])"
    by (simp add: example_fs_def)
  have enc: "b64encode [0xFF, 0xD8, 0xFF] = ''/9j/''"
    by (simp add: b64_char_def b64_alphabet_def)
  have a: "display_image example_fs ''pics/a.jpg''
        [(''a'', ''b;width=400px''), (''width'', ''400px'')] io0 =
      (Inr (), io0\<lparr>stdout :=
         CHR 0x1B # '']1337;File=inline=1;a=b;width=400px;width=400px:/9j/'' @ [CHR 0x07]\<rparr>)"
    by (simp add: display_image_regular [OF node] enc escape_sequence_def build_opts_def
        write_out_def io0_def ESC_def BEL_def del: b64encode.simps)
  have b: "display_image example_fs ''pics/a.jpg''
        [(''t'', ''a:b''), (''width'', ''400px'')] io0 =
      (Inr (), io0\<lparr>stdout :=
         CHR 0x1B # '']1337;File=inline=1;t=a:b;width=400px:/9j/'' @ [CHR 0x07]\<rparr>)"
    by (simp add: display_image_regular [OF node] enc escape_sequence_def build_opts_def
        write_out_def io0_def ESC_def BEL_def del: b64encode.simps)
  have c: "count_list (emitted_options
         (CHR 0x1B # '']1337;File=inline=1;a=b;width=400px;width=400px:/9j/'' @ [CHR 0x07]))
       ''width=400px'' = 2"
    by (simp add: emitted_options_def ESC_def)
  have d: "emitted_options (CHR 0x1B # '']1337;File=inline=1;t=a:b;width=400px:/9j/'' @ [CHR 0x07])
       = [''inline=1'', ''t=a'']"
    by (simp add: emitted_options_def ESC_def)
  from a b c d show ?thesis by simp
qed

text \<open>
  C2, as amended: for every options dictionary, \<open>display_image\<close> on a readable file writes
  \<open>ESC ]1337;File=\<close>, then \<open>inline=1\<close>, then every \<open>;key=value\<close> of the caller
  in insertion order, then \<open>:\<close>, the payload and \<open>BEL\<close>; \<open>inline=1\<close> is always the
  first token of the emitted option list; and when no key and no value holds \<open>;\<close> or
  \<open>:\<close>, the emitted option list is \<open>inline=1\<close> followed by the \<open>key=value\<close> tokens in
  insertion order, so that an entry \<open>width=400px\<close> is the token at the place it was given,
  and the only such token.
\<close>

theorem display_image_options:
  assumes "node_at fs path = Some (RegFile data)" and "distinct (map fst opts)"
  shows "display_image fs path opts st =
      (Inr (), st\<lparr>stdout := stdout st @ CHR 0x1B # '']1337;File=inline=1''
                 @ concat (map (\<lambda>(k, v). '';'' @ k @ ''='' @ v) opts)
                 @ '':'' @ b64encode data @ [CHR 0x07]\<rparr>)
    \<and> hd (emitted_options (CHR 0x1B # '']1337;File=inline=1''
                 @ concat (map (\<lambda>(k, v). '';'' @ k @ ''='' @ v) opts)
                 @ '':'' @ b64encode data @ [CHR 0x07])) = ''inline=1''
    \<and> ((\<forall>(k, v) \<in> set opts. CHR '';'' \<notin> set k \<and> CHR '':'' \<notin> set k
            \<and> CHR '';'' \<notin> set v \<and> CHR '':'' \<notin> set v) \<longrightarrow>
        emitted_options (CHR 0x1B # '']1337;File=inline=1''
                 @ concat (map (\<lambda>(k, v). '';'' @ k @ ''='' @ v) opts)
                 @ '':'' @ b64encode data @ [CHR 0x07])
          = ''inline=1'' # map (\<lambda>(k, v). k @ ''='' @ v) opts
        \<and> (\<forall>i < length opts. opts ! i = (''width'', ''400px'') \<longrightarrow>
              emitted_options (CHR 0x1B # '']1337;File=inline=1''
                 @ concat (map (\<lambda>(k, v). '';'' @ k @ ''='' @ v) opts)
                 @ '':'' @ b64encode data @ [CHR 0x07]) ! Suc i = ''width=400px''
              \<and> count_list (emitted_options (CHR 0x1B # '']1337;File=inline=1''
                 @ concat (map (\<lambda>(k, v). '';'' @ k @ ''='' @ v) opts)
                 @ '':'' @ b64encode data @ [CHR 0x07])) ''width=400px'' = 1))"
proof -
  let ?text = "CHR 0x1B # '']1337;File=inline=1''
                 @ concat (map (\<lambda>(k, v). '';'' @ k @ ''='' @ v) opts)
                 @ '':'' @ b64encode data @ [CHR 0x07]"
  have seq: "escape_sequence (build_opts opts) (b64encode data) = ?text"
    by (simp add: escape_sequence_def options_string ESC_def BEL_def)
  have emitted: "display_image fs path opts st = (Inr (), st\<lparr>stdout := stdout st @ ?text\<rparr>)"
    by (simp add: display_image_regular [OF assms(1)] seq write_out_def)
  have first: "hd (emitted_options ?text) = ''inline=1''"
    unfolding seq [symmetric] emitted_options_sequence by (rule first_token)
  have plain: "emitted_options ?text = ''inline=1'' # map (\<lambda>(k, v). k @ ''='' @ v) opts
      \<and> (\<forall>i < length opts. opts ! i = (''width'', ''400px'') \<longrightarrow>
            emitted_options ?text ! Suc i = ''width=400px''
            \<and> count_list (emitted_options ?text) ''width=400px'' = 1)"
    if sep: "\<forall>(k, v) \<in> set opts. CHR '';'' \<notin> set k \<and> CHR '':'' \<notin> set k
            \<and> CHR '';'' \<notin> set v \<and> CHR '':'' \<notin> set v"
  proof -
    have list: "emitted_options ?text = build_opts opts"
      unfolding seq [symmetric] by (rule emitted_options_plain [OF sep])
    have once: "build_opts opts ! Suc i = ''width=400px''
        \<and> count_list (build_opts opts) ''width=400px'' = 1"
      if i: "i < length opts" and at: "opts ! i = (''width'', ''400px'')" for i
    proof -
      from i at have "(''width'', ''400px'') \<in> set opts"
        by (metis nth_mem)
      with assms(2) have "count_list opts (''width'', ''400px'') = 1"
        by (rule count_list_distinct_keys)
      with i at show ?thesis
        by (simp add: build_opts_def count_width_tokens)
    qed
    from list once show ?thesis
      by (simp add: build_opts_def)
  qed
  from emitted first plain show ?thesis by blast
qed

theorem display_image_options_witness:
  "node_at example_fs ''pics/a.jpg'' = Some (RegFile [0xFF, 0xD8, 0xFF])
   \<and> distinct (map fst [(''width'', ''400px'')])
   \<and> CHR '';'' \<notin> set ''width'' \<and> CHR '':'' \<notin> set ''width''
   \<and> CHR '';'' \<notin> set ''400px'' \<and> CHR '':'' \<notin> set ''400px''
   \<and> (0 :: nat) < length [(''width'', ''400px'')]
   \<and> display_image example_fs ''pics/a.jpg'' [(''width'', ''400px'')] io0 =
      (Inr (), io0\<lparr>stdout := CHR 0x1B # '']1337;File=inline=1;width=400px:/9j/'' @ [CHR 0x07]\<rparr>)
   \<and> emitted_options (CHR 0x1B # '']1337;File=inline=1;width=400px:/9j/'' @ [CHR 0x07])
      = [''inline=1'', ''width=400px'']
   \<and> count_list (emitted_options
        (CHR 0x1B # '']1337;File=inline=1;width=400px:/9j/'' @ [CHR 0x07])) ''width=400px'' = 1"
proof -
  have node: "node_at example_fs ''pics/a.jpg'' = Some (RegFile [0xFF, 0xD8, 0xFF])"
    by (simp add: example_fs_def)
  have dist: "distinct (map fst [(''width'', ''400px'')])" by simp
  have enc: "b64encode [0xFF, 0xD8, 0xFF] = ''/9j/''"
    by (simp add: b64_char_def b64_alphabet_def)
  have plain: "CHR '';'' \<notin> set ''width'' \<and> CHR '':'' \<notin> set ''width''
      \<and> CHR '';'' \<notin> set ''400px'' \<and> CHR '':'' \<notin> set ''400px''"
    by simp
  then have sep: "\<forall>(k, v) \<in> set [(''width'', ''400px'')]. CHR '';'' \<notin> set k \<and> CHR '':'' \<notin> set k
            \<and> CHR '';'' \<notin> set v \<and> CHR '':'' \<notin> set v"
    by simp
  have len: "(0 :: nat) < length [(''width'', ''400px'')]" by simp
  have seq: "CHR 0x1B # '']1337;File=inline=1''
        @ concat (map (\<lambda>(k, v). '';'' @ k @ ''='' @ v) [(''width'', ''400px'')])
        @ '':'' @ b64encode [0xFF, 0xD8, 0xFF] @ [CHR 0x07]
      = CHR 0x1B # '']1337;File=inline=1;width=400px:/9j/'' @ [CHR 0x07]"
    by (simp add: enc del: b64encode.simps)
  note T = display_image_options [OF node dist, of io0, unfolded seq]
  from T have a: "display_image example_fs ''pics/a.jpg'' [(''width'', ''400px'')] io0 =
      (Inr (), io0\<lparr>stdout := CHR 0x1B # '']1337;File=inline=1;width=400px:/9j/'' @ [CHR 0x07]\<rparr>)"
    by (simp add: io0_def)
  note P = T [THEN conjunct2, THEN conjunct2, THEN mp, OF sep]
  have at: "[(''width'', ''400px'')] ! 0 = (''width'', ''400px'')" by simp
  from P have b: "emitted_options (CHR 0x1B # '']1337;File=inline=1;width=400px:/9j/'' @ [CHR 0x07])
      = [''inline=1'', ''width=400px'']"
    by simp
  from P len at
  have c: "count_list (emitted_options
        (CHR 0x1B # '']1337;File=inline=1;width=400px:/9j/'' @ [CHR 0x07])) ''width=400px'' = 1"
    by blast
  from node dist plain len a b c show ?thesis by blast
qed

text \<open>
  C5: when the caller's options have a key \<open>inline\<close> themselves, the first token is still
  the implicit \<open>inline=1\<close>, the caller's entry is emitted at its own place, and no token
  is dropped: there is one token more than there are entries.
\<close>

theorem display_image_keeps_inline:
  assumes "node_at fs path = Some (RegFile data)"
    and "i < length opts" and "opts ! i = (''inline'', v)"
  shows "display_image fs path opts st =
      (Inr (), st\<lparr>stdout := stdout st @ CHR 0x1B # '']1337;File=''
                 @ join '';'' (build_opts opts) @ '':'' @ b64encode data @ [CHR 0x07]\<rparr>)
    \<and> length (build_opts opts) = Suc (length opts)
    \<and> build_opts opts ! 0 = ''inline=1''
    \<and> build_opts opts ! Suc i = ''inline='' @ v"
  using assms
  by (simp add: display_image_regular escape_sequence_def build_opts_def write_out_def
      ESC_def BEL_def)

theorem display_image_keeps_inline_witness:
  "node_at example_fs ''pics/a.jpg'' = Some (RegFile [0xFF, 0xD8, 0xFF])
   \<and> 1 < length [(''width'', ''50%''), (''inline'', ''0'')]
   \<and> [(''width'', ''50%''), (''inline'', ''0'')] ! 1 = (''inline'', ''0'')
   \<and> display_image example_fs ''pics/a.jpg'' [(''width'', ''50%''), (''inline'', ''0'')] io0 =
      (Inr (), io0\<lparr>stdout := CHR 0x1B # '']1337;File=inline=1;width=50%;inline=0:/9j/'' @ [CHR 0x07]\<rparr>)"
proof -
  have node: "node_at example_fs ''pics/a.jpg'' = Some (RegFile [0xFF, 0xD8, 0xFF])"
    by (simp add: example_fs_def)
  have len: "1 < length [(''width'', ''50%''), (''inline'', ''0'')]" by simp
  have at: "[(''width'', ''50%''), (''inline'', ''0'')] ! 1 = (''inline'', ''0'')" by simp
  have enc: "b64encode [0xFF, 0xD8, 0xFF] = ''/9j/''"
    by (simp add: b64_char_def b64_alphabet_def)
  have "display_image example_fs ''pics/a.jpg'' [(''width'', ''50%''), (''inline'', ''0'')] io0 =
      (Inr (), io0\<lparr>stdout := stdout io0 @ CHR 0x1B # '']1337;File=''
                 @ join '';'' (build_opts [(''width'', ''50%''), (''inline'', ''0'')]) @ '':''
                 @ b64encode [0xFF, 0xD8, 0xFF] @ [CHR 0x07]\<rparr>)"
    using display_image_keeps_inline [OF node len at, of io0] by blast
  then have "display_image example_fs ''pics/a.jpg'' [(''width'', ''50%''), (''inline'', ''0'')] io0 =
      (Inr (), io0\<lparr>stdout := CHR 0x1B # '']1337;File=inline=1;width=50%;inline=0:/9j/'' @ [CHR 0x07]\<rparr>)"
    by (simp add: enc io0_def build_opts_def del: b64encode.simps)
  with node len at show ?thesis by blast
qed


section \<open>Cursor and screen helpers\<close>

lemma digit_value: "d < 10 \<Longrightarrow> of_char (digit_char d) = (48 + d :: nat)"
proof -
  assume "d < 10"
  then have "d = 0 \<or> d = 1 \<or> d = 2 \<or> d = 3 \<or> d = 4 \<or> d = 5 \<or> d = 6 \<or> d = 7
    \<or> d = 8 \<or> d = 9"
    by arith
  then show ?thesis
    by (elim disjE) (simp_all add: digit_char_def)
qed

lemma str_nat_value: "foldl (\<lambda>a c. 10 * a + (of_char c - 48)) (0 :: nat) (str_nat n) = n"
proof (induction n rule: str_nat.induct)
  case (1 n)
  show ?case
  proof (cases "n < 10")
    case True
    then show ?thesis by (simp add: str_nat.simps digit_value)
  next
    case False
    with "1" show ?thesis
      by (subst str_nat.simps) (simp add: digit_value)
  qed
qed

lemma str_nat_digit: "n < 10 \<Longrightarrow> str_nat n = [digit_char n]"
  by (simp add: str_nat.simps)

lemma str_nat_step: "10 \<le> n \<Longrightarrow> str_nat n = str_nat (n div 10) @ [digit_char (n mod 10)]"
  by (subst str_nat.simps) simp

lemma length_str_nat_two: "n < 100 \<Longrightarrow> length (str_nat n) \<le> 2"
proof (cases "n < 10")
  case True
  then show ?thesis by (simp add: str_nat_digit)
next
  case False
  assume "n < 100"
  with False have "10 \<le> n" and "n div 10 < 10" by simp_all
  then show ?thesis by (simp add: str_nat_step str_nat_digit)
qed

lemma length_str_nat_power: "length (str_nat (10 ^ k)) = Suc k"
proof (induction k)
  case 0
  show ?case by (simp add: str_nat_digit)
next
  case (Suc k)
  have "(10 :: nat) \<le> 10 * 10 ^ k" by simp
  then have "str_nat (10 * 10 ^ k) = str_nat (10 ^ k) @ [digit_char ((10 * 10 ^ k) mod 10)]"
    using str_nat_step [of "10 * 10 ^ k"] by simp
  with Suc show ?case by simp
qed

lemma move_cursor_converts:
  assumes "length (str_nat (nat (abs row))) \<le> max_str_digits"
    and "length (str_nat (nat (abs col))) \<le> max_str_digits"
  shows "move_cursor row col st = (Inr (), write_out (cursor_sequence row col) st)"
  using assms by (simp add: move_cursor_def str_int_def cursor_sequence_def)

lemma move_cursor_small:
  assumes "0 \<le> row" "row < 100" "0 \<le> col" "col < 100"
  shows "move_cursor row col st = (Inr (), write_out (cursor_sequence row col) st)"
proof (rule move_cursor_converts)
  from assms have "nat (abs row) < 100" and "nat (abs col) < 100" by simp_all
  then have "length (str_nat (nat (abs row))) \<le> 2" and "length (str_nat (nat (abs col))) \<le> 2"
    by (simp_all add: length_str_nat_two)
  then show "length (str_nat (nat (abs row))) \<le> max_str_digits"
    and "length (str_nat (nat (abs col))) \<le> max_str_digits"
    by (simp_all add: max_str_digits_def)
qed

lemma decimal_6: "decimal 6 = ''6''"
  by (simp add: decimal_def str_nat.simps digit_char_def)

lemma decimal_5: "decimal 5 = ''5''"
  by (simp add: decimal_def str_nat.simps digit_char_def)

text \<open>
  C4 as it is written fails: \<open>move_cursor\<close> does not write for all integers. The row
  \<open>10 ^ 4300\<close> has 4301 digits, its conversion in the f-string raises \<open>ValueError\<close>, and
  nothing is written.
\<close>

theorem move_cursor_counterexample: "move_cursor (10 ^ 4300) 1 io0 = (Inl ValueError, io0)"
proof -
  have "nat (abs ((10 :: int) ^ 4300)) = 10 ^ 4300"
    by (simp only: power_abs nat_power_eq abs_ge_zero abs_numeral nat_numeral)
  then have "length (str_nat (nat (abs ((10 :: int) ^ 4300)))) = Suc 4300"
    by (simp only: length_str_nat_power)
  then have "max_str_digits < length (str_nat (nat (abs ((10 :: int) ^ 4300))))"
    by (simp only: max_str_digits_def lessI)
  then have "str_int (10 ^ 4300) = Inl ValueError"
    by (simp only: str_int_def if_True)
  then show ?thesis
    by (simp only: move_cursor_def sum.case)
qed

text \<open>
  C4, as amended: \<open>clear_screen\<close> writes exactly \<open>\x1b[2J\x1b[H\<close>; for all integers
  \<open>row\<close> and \<open>col\<close> of at most 4300 decimal digits each, \<open>move_cursor row col\<close> writes
  exactly \<open>\x1b[\<close>, the decimal \<open>row\<close>, \<open>;\<close>, the decimal \<open>col\<close> and \<open>H\<close>;
  \<open>move_cursor 6 5\<close> writes \<open>\x1b[6;5H\<close>.
\<close>

theorem cursor_helpers_output:
  "clear_screen st =
     st\<lparr>stdout := stdout st @ [CHR 0x1B, CHR ''['', CHR ''2'', CHR ''J'', CHR 0x1B, CHR ''['', CHR ''H'']\<rparr>
   \<and> (length (str_nat (nat (abs row))) \<le> 4300 \<and> length (str_nat (nat (abs col))) \<le> 4300 \<longrightarrow>
       move_cursor row col st =
         (Inr (), st\<lparr>stdout := stdout st @ CHR 0x1B # ''['' @ decimal row @ '';'' @ decimal col @ ''H''\<rparr>))
   \<and> move_cursor 6 5 st = (Inr (), st\<lparr>stdout := stdout st @ CHR 0x1B # ''[6;5H''\<rparr>)"
proof (intro conjI impI)
  show "clear_screen st =
     st\<lparr>stdout := stdout st @ [CHR 0x1B, CHR ''['', CHR ''2'', CHR ''J'', CHR 0x1B, CHR ''['', CHR ''H'']\<rparr>"
    by (simp add: clear_screen_def write_out_def ESC_def)
  show "move_cursor 6 5 st = (Inr (), st\<lparr>stdout := stdout st @ CHR 0x1B # ''[6;5H''\<rparr>)"
    by (simp add: move_cursor_small cursor_sequence_def write_out_def ESC_def decimal_6 decimal_5)
next
  assume "length (str_nat (nat (abs row))) \<le> 4300 \<and> length (str_nat (nat (abs col))) \<le> 4300"
  then show "move_cursor row col st =
         (Inr (), st\<lparr>stdout := stdout st @ CHR 0x1B # ''['' @ decimal row @ '';'' @ decimal col @ ''H''\<rparr>)"
    by (simp add: move_cursor_converts max_str_digits_def cursor_sequence_def write_out_def ESC_def)
qed

theorem cursor_helpers_output_witness:
  "length (str_nat (nat (abs (17 :: int)))) \<le> 4300 \<and> length (str_nat (nat (abs (- 3 :: int)))) \<le> 4300
   \<and> move_cursor 17 (- 3) io0 = (Inr (), io0\<lparr>stdout := CHR 0x1B # ''[17;-3H''\<rparr>)"
proof -
  have len: "length (str_nat (nat (abs (17 :: int)))) \<le> 4300
      \<and> length (str_nat (nat (abs (- 3 :: int)))) \<le> 4300"
    by (simp add: str_nat.simps)
  have dec: "decimal 17 = ''17''" "decimal (- 3) = ''-3''"
    by (simp_all add: decimal_def str_nat.simps digit_char_def)
  from cursor_helpers_output [THEN conjunct2, THEN conjunct1, rule_format, OF len, of io0]
  have "move_cursor 17 (- 3) io0 = (Inr (), io0\<lparr>stdout := CHR 0x1B # ''[17;-3H''\<rparr>)"
    by (simp add: dec io0_def)
  with len show ?thesis by blast
qed

section \<open>Missing files and missing arguments\<close>

lemma display_image_not_file:
  assumes "\<not> isfile fs path"
  shows "display_image fs path opts st =
    (Inr (), st\<lparr>stderr := stderr st @ ''Error: Image file not found: '' @ path @ [NL]\<rparr>)"
  using assms by (simp add: display_image_def py_print_err_def write_err_def)

text \<open>
  C6 as it is written fails twice: on a path that does not exist \<open>display_image\<close> does
  not fail with \<open>FileNotFoundError\<close>, it reports on standard error and returns; and on
  \<open>/dev/null\<close>, which exists and is no regular file, \<open>load_image.py\<close> does not fail: it
  writes the escape sequence of an empty payload.
\<close>

theorem display_image_missing_counterexample:
  "display_image example_fs ''missing.png'' [] io0
     = (Inr (), io0\<lparr>stderr := ''Error: Image file not found: missing.png'' @ [CHR 0x0A]\<rparr>)
   \<and> fst (display_image example_fs ''missing.png'' [] io0) \<noteq> Inl (FileNotFoundError ''missing.png'')
   \<and> \<not> isfile example_fs ''/dev/null''
   \<and> load_image example_fs [''load_image.py'', ''/dev/null''] io0
     = (Inr (), io0\<lparr>stdout := CHR 0x1B # '']1337;File=inline=1:'' @ [CHR 0x07, CHR 0x0A]\<rparr>)"
  by (simp add: display_image_def load_image_def read_file_def isfile_def example_fs_def io0_def
      py_print_err_def py_print_def write_err_def write_out_def NL_def ESC_def BEL_def)

text \<open>
  C6, as amended: for a path that is not an existing regular file, \<open>display_image\<close> writes
  one error line to standard error, returns normally and writes nothing to standard output.
  \<open>load_image.py\<close> writes nothing when \<open>open\<close> raises, and ends with that error:
  \<open>FileNotFoundError\<close> when nothing exists at the path, \<open>IsADirectoryError\<close> when it is a
  directory, or the other error that \<open>open\<close> raises; but when the path exists, is no
  regular file and can be read (a device such as \<open>/dev/null\<close>), it writes the escape
  sequence of the bytes read.
\<close>

theorem missing_file_no_output:
  assumes "\<not> isfile fs path"
  shows "display_image fs path opts st =
      (Inr (), st\<lparr>stderr := stderr st @ ''Error: Image file not found: '' @ path @ [CHR 0x0A]\<rparr>)
    \<and> stdout (snd (display_image fs path opts st)) = stdout st
    \<and> load_image fs (script # path # args) st =
        (case node_at fs path of
           None \<Rightarrow> (Inl (FileNotFoundError path), st)
         | Some Directory \<Rightarrow> (Inl (IsADirectoryError path), st)
         | Some (Blocked e) \<Rightarrow> (Inl e, st)
         | Some (Special bs) \<Rightarrow>
             (Inr (), st\<lparr>stdout := stdout st @ CHR 0x1B # '']1337;File=inline=1:''
                         @ b64encode bs @ [CHR 0x07, CHR 0x0A]\<rparr>)
         | Some Unreadable \<Rightarrow> (Inl (PermissionError path), st)
         | Some (RegFile bs) \<Rightarrow>
             (Inr (), st\<lparr>stdout := stdout st @ CHR 0x1B # '']1337;File=inline=1:''
                         @ b64encode bs @ [CHR 0x07, CHR 0x0A]\<rparr>))
    \<and> node_at fs path \<noteq> Some Unreadable \<and> (\<forall>bs. node_at fs path \<noteq> Some (RegFile bs))"
proof -
  have "load_image fs (script # path # args) st =
        (case node_at fs path of
           None \<Rightarrow> (Inl (FileNotFoundError path), st)
         | Some Directory \<Rightarrow> (Inl (IsADirectoryError path), st)
         | Some (Blocked e) \<Rightarrow> (Inl e, st)
         | Some (Special bs) \<Rightarrow>
             (Inr (), st\<lparr>stdout := stdout st @ CHR 0x1B # '']1337;File=inline=1:''
                         @ b64encode bs @ [CHR 0x07, CHR 0x0A]\<rparr>)
         | Some Unreadable \<Rightarrow> (Inl (PermissionError path), st)
         | Some (RegFile bs) \<Rightarrow>
             (Inr (), st\<lparr>stdout := stdout st @ CHR 0x1B # '']1337;File=inline=1:''
                         @ b64encode bs @ [CHR 0x07, CHR 0x0A]\<rparr>))"
    by (simp add: load_image_def read_file_def py_print_def write_out_def ESC_def BEL_def NL_def
        split: option.splits node.splits)
  moreover from assms have "node_at fs path \<noteq> Some Unreadable"
    and "\<forall>bs. node_at fs path \<noteq> Some (RegFile bs)"
    by (auto simp: isfile_def)
  ultimately show ?thesis
    by (simp add: display_image_not_file [OF assms] NL_def)
qed

theorem missing_file_no_output_witness:
  "\<not> isfile example_fs ''missing.png''
   \<and> display_image example_fs ''missing.png'' [(''width'', ''50%'')] io0 =
      (Inr (), io0\<lparr>stderr := ''Error: Image file not found: missing.png'' @ [CHR 0x0A]\<rparr>)
   \<and> load_image example_fs [''load_image.py'', ''missing.png''] io0 =
      (Inl (FileNotFoundError ''missing.png''), io0)
   \<and> \<not> isfile example_fs ''pics''
   \<and> load_image example_fs [''load_image.py'', ''pics''] io0 =
      (Inl (IsADirectoryError ''pics''), io0)"
proof -
  have miss: "\<not> isfile example_fs ''missing.png''"
    by (simp add: isfile_def example_fs_def)
  have none: "node_at example_fs ''missing.png'' = None"
    by (simp add: example_fs_def)
  have dir: "\<not> isfile example_fs ''pics''"
    by (simp add: isfile_def example_fs_def)
  have node: "node_at example_fs ''pics'' = Some Directory"
    by (simp add: example_fs_def)
  from missing_file_no_output [OF miss, of "[(''width'', ''50%'')]" io0 "''load_image.py''" "[]"]
  have a: "display_image example_fs ''missing.png'' [(''width'', ''50%'')] io0 =
      (Inr (), io0\<lparr>stderr := ''Error: Image file not found: missing.png'' @ [CHR 0x0A]\<rparr>)"
    and b: "load_image example_fs [''load_image.py'', ''missing.png''] io0 =
      (Inl (FileNotFoundError ''missing.png''), io0)"
    by (simp_all add: none io0_def)
  from missing_file_no_output [OF dir, of "[]" io0 "''load_image.py''" "[]"]
  have c: "load_image example_fs [''load_image.py'', ''pics''] io0 =
      (Inl (IsADirectoryError ''pics''), io0)"
    by (simp add: node)
  from miss dir a b c show ?thesis by blast
qed

text \<open>
  C7 as it is written fails: without the image path the usage message goes to standard
  output, and nothing is written to standard error.
\<close>

theorem usage_on_stdout_counterexample:
  "load_image example_fs [''load_image.py''] io0 =
     (Inl (SystemExit 1), io0\<lparr>stdout := ''Usage: python im.py <image_path>'' @ [CHR 0x0A]\<rparr>)
   \<and> stderr (snd (load_image example_fs [''load_image.py''] io0)) = []"
  by (simp add: load_image_def io0_def py_print_def write_out_def NL_def)

text \<open>
  C7, as amended: without the image path, \<open>load_image.py\<close> prints the usage message on
  standard output, leaves standard error alone and exits with code 1.
\<close>

theorem usage_exit_code:
  assumes "length argv < 2"
  shows "load_image fs argv st =
      (Inl (SystemExit 1), st\<lparr>stdout := stdout st @ ''Usage: python im.py <image_path>'' @ [CHR 0x0A]\<rparr>)
    \<and> exit_code (fst (load_image fs argv st)) = 1
    \<and> stderr (snd (load_image fs argv st)) = stderr st"
  using assms by (simp add: load_image_def py_print_def write_out_def NL_def)

theorem usage_exit_code_witness:
  "length [''load_image.py''] < 2
   \<and> load_image example_fs [''load_image.py''] io0 =
      (Inl (SystemExit 1), io0\<lparr>stdout := stdout io0 @ ''Usage: python im.py <image_path>'' @ [CHR 0x0A]\<rparr>)
   \<and> exit_code (fst (load_image example_fs [''load_image.py''] io0)) = 1"
proof -
  have len: "length [''load_image.py''] < 2" by simp
  from len usage_exit_code [OF len, of example_fs io0] show ?thesis by blast
qed

section \<open>The demo driver\<close>

text \<open>
  C8: for a directory that exists and has no entry matching \<open>*.jpg\<close> or \<open>*.png\<close>,
  \<open>main\<close> writes an error line to standard error, writes nothing to standard output
  and exits with code 1.
\<close>

theorem main_no_images:
  assumes "is_dir fs image_dir"
    and "glob fs image_dir ''*.jpg'' = []" and "glob fs image_dir ''*.png'' = []"
  shows "main fs image_dir intr st =
      (Inl (SystemExit 1),
       st\<lparr>stderr := stderr st @ ''Error: No JPG or PNG images found in '' @ image_dir @ [CHR 0x0A]\<rparr>)
    \<and> exit_code (fst (main fs image_dir intr st)) = 1
    \<and> stdout (snd (main fs image_dir intr st)) = stdout st"
  using assms by (simp add: main_def py_print_err_def write_err_def NL_def)

theorem main_no_images_witness:
  "is_dir example_fs ''empty''
   \<and> glob example_fs ''empty'' ''*.jpg'' = [] \<and> glob example_fs ''empty'' ''*.png'' = []
   \<and> main example_fs ''empty'' None io0 =
      (Inl (SystemExit 1),
       io0\<lparr>stderr := ''Error: No JPG or PNG images found in empty'' @ [CHR 0x0A]\<rparr>)
   \<and> exit_code (fst (main example_fs ''empty'' None io0)) = 1
   \<and> stdout (snd (main example_fs ''empty'' None io0)) = []"
proof -
  have d: "is_dir example_fs ''empty''"
    by (simp add: is_dir_def example_fs_def)
  have j: "glob example_fs ''empty'' ''*.jpg'' = []"
    by (simp add: example_fs_def)
  have p: "glob example_fs ''empty'' ''*.png'' = []"
    by (simp add: example_fs_def)
  from main_no_images [OF d j p, of None io0]
  have "main example_fs ''empty'' None io0 =
      (Inl (SystemExit 1),
       io0\<lparr>stderr := stderr io0 @ ''Error: No JPG or PNG images found in '' @ ''empty'' @ [CHR 0x0A]\<rparr>)"
    and "exit_code (fst (main example_fs ''empty'' None io0)) = 1"
    and "stdout (snd (main example_fs ''empty'' None io0)) = stdout io0"
    by blast+
  then show ?thesis
    using d j p by (simp add: io0_def)
qed

section \<open>Blocks of statements\<close>

lemma run_append:
  "run (cs @ ds) st = (case run cs st of (Inl e, st') \<Rightarrow> (Inl e, st') | (Inr _, st') \<Rightarrow> run ds st')"
proof (induction cs arbitrary: st)
  case Nil
  then show ?case by simp
next
  case (Cons c cs)
  then show ?case by (simp split: prod.splits sum.splits)
qed

lemma run_Cons_returns: "fst (c st) = Inr () \<Longrightarrow> run (c # cs) st = run cs (snd (c st))"
  by (cases "c st") auto

lemma run_intr_None: "run_intr None cs st = run cs st"
  by (induction cs arbitrary: st) (simp_all split: prod.splits sum.splits)

lemma run_intr_append:
  assumes "run cs st = (Inr (), st')" and "length cs \<le> n"
  shows "run_intr (Some n) (cs @ ds) st = run_intr (Some (n - length cs)) ds st'"
  using assms
proof (induction cs arbitrary: st n)
  case Nil
  then show ?case by simp
next
  case (Cons c cs)
  from Cons.prems(2) obtain m where n: "n = Suc m" and m: "length cs \<le> m"
    by (cases n) auto
  show ?case
  proof (cases "c st")
    case (Pair r st1)
    with Cons.prems(1) obtain u where r: "r = Inr u" and rest: "run cs st1 = (Inr (), st')"
      by (cases r) auto
    from Cons.IH [OF rest m] Pair r n show ?thesis by simp
  qed
qed

lemma run_intr_late:
  assumes "length cs \<le> n"
  shows "run_intr (Some n) cs st = run cs st"
  using assms
proof (induction cs arbitrary: st n)
  case Nil
  then show ?case by simp
next
  case (Cons c cs)
  then obtain m where n: "n = Suc m" and m: "length cs \<le> m"
    by (cases n) auto
  with Cons.IH [OF m] show ?case
    by (simp split: prod.splits sum.splits)
qed

section \<open>The frames of the animation\<close>

lemma frame_row_bounds: "7 \<le> frame_row i \<and> frame_row i \<le> 17"
proof -
  have "i mod 20 < 20" by simp
  then show ?thesis unfolding frame_row_def by linarith
qed

lemma frame_col_bounds: "10 \<le> frame_col i \<and> frame_col i \<le> 49"
proof -
  have "i mod 40 < 40" by simp
  then show ?thesis unfolding frame_col_def by linarith
qed

lemma move_cursor_frame:
  "move_cursor (frame_row i) (frame_col i) st =
     (Inr (), write_out (cursor_sequence (frame_row i) (frame_col i)) st)"
  using frame_row_bounds [of i] frame_col_bounds [of i] by (intro move_cursor_small) simp_all

lemma display_image_effect:
  assumes "node_at fs path \<noteq> Some Unreadable"
  shows "display_image fs path opts st =
    (Inr (), st\<lparr>stdout := stdout st @ image_text fs path opts,
                stderr := stderr st @ error_text fs path\<rparr>)"
proof (cases "node_at fs path")
  case None
  then show ?thesis
    by (simp add: display_image_def isfile_def image_text_def error_text_def py_print_err_def
        write_err_def)
next
  case (Some nd)
  with assms show ?thesis
    by (cases nd)
      (simp_all add: display_image_def isfile_def read_file_def image_text_def error_text_def
        py_print_err_def write_err_def write_out_def)
qed

lemma replicate_snoc: "concat (replicate k e) @ e = concat (replicate (Suc k) e)"
  by (induction k) simp_all

lemma frame_run:
  assumes "node_at fs img \<noteq> Some Unreadable"
  shows "run (animation_frame fs img i) st =
    (Inr (), st\<lparr>stdout := stdout st @ frame_text fs img i,
                stderr := stderr st @ error_text fs img,
                slept := slept st + 1\<rparr>)"
  by (simp add: animation_frame_def ok_def move_cursor_frame write_out_def sleep_def
      display_image_effect [OF assms] frame_text_def)

lemma frames_run:
  assumes "node_at fs img \<noteq> Some Unreadable"
  shows "run (concat (map (animation_frame fs img) [0..<k])) st =
    (Inr (), st\<lparr>stdout := stdout st @ concat (map (frame_text fs img) [0..<k]),
                stderr := stderr st @ concat (replicate k (error_text fs img)),
                slept := slept st + k\<rparr>)"
proof (induction k)
  case 0
  show ?case by simp
next
  case (Suc k)
  show ?case
    by (simp add: run_append Suc frame_run [OF assms] replicate_snoc del: replicate.simps)
qed

lemma length_frames: "length (concat (map (animation_frame fs img) [0..<k])) = 3 * k"
  by (induction k) (simp_all add: animation_frame_def)

lemma range_split: "k < n \<Longrightarrow> [0..<n] = [0..<k] @ k # [Suc k..<n]"
  using upt_add_eq_append [of 0 k "n - k"] upt_conv_Cons [of k n] by simp

lemma frames_interrupted:
  assumes unr: "node_at fs img \<noteq> Some Unreadable" and k: "k < 100" and j: "j < 3"
  shows "run_intr (Some (3 * k + j)) (concat (map (animation_frame fs img) [0..<100])) st =
    (Inl KeyboardInterrupt,
     st\<lparr>stdout := stdout st @ concat (map (frame_text fs img) [0..<k])
          @ (if j = 0 then []
             else if j = 1 then cursor_sequence (frame_row k) (frame_col k)
             else frame_text fs img k),
         stderr := stderr st
          @ concat (replicate (if j = 2 then Suc k else k) (error_text fs img)),
         slept := slept st + k\<rparr>)"
proof -
  let ?F = "animation_frame fs img"
  have split: "concat (map ?F [0..<100]) =
      concat (map ?F [0..<k]) @ (?F k @ concat (map ?F [Suc k..<100]))"
    by (simp add: range_split [OF k])
  have len: "length (concat (map ?F [0..<k])) \<le> 3 * k + j"
    by (simp add: length_frames)
  have "run_intr (Some (3 * k + j)) (concat (map ?F [0..<100])) st =
      run_intr (Some j) (?F k @ concat (map ?F [Suc k..<100]))
        (st\<lparr>stdout := stdout st @ concat (map (frame_text fs img) [0..<k]),
            stderr := stderr st @ concat (replicate k (error_text fs img)),
            slept := slept st + k\<rparr>)"
    unfolding split
    using run_intr_append [OF frames_run [OF unr] len] by (simp add: length_frames)
  moreover from j have "j = 0 \<or> j = 1 \<or> j = 2" by arith
  ultimately show ?thesis
    by (elim disjE)
      (simp_all add: animation_frame_def ok_def move_cursor_frame write_out_def sleep_def
        display_image_effect [OF unr] frame_text_def replicate_snoc del: replicate.simps)
qed

section \<open>The \<open>try\<close> statement of the animation\<close>

lemma animation_try_complete:
  assumes unr: "node_at fs img \<noteq> Some Unreadable"
  shows "run (animation_try fs img) st =
    (Inr (), st\<lparr>stdout := stdout st @ cursor_sequence 5 1
          @ image_text fs img background_opts
          @ concat (map (frame_text fs img) [0..<100]),
       stderr := stderr st @ concat (replicate 101 (error_text fs img)),
       slept := slept st + 100\<rparr>)"
proof -
  have "error_text fs img @ concat (replicate 100 (error_text fs img))
      = concat (replicate 101 (error_text fs img))"
    using replicate.simps(2) [of 100 "error_text fs img"] by simp
  then show ?thesis
    by (simp add: animation_try_def ok_def move_cursor_small write_out_def
      display_image_effect [OF unr] frames_run [OF unr] del: replicate.simps)
qed

lemma length_animation_try: "length (animation_try fs img) = 302"
  by (simp add: animation_try_def length_frames)

lemma animation_try_interrupted:
  assumes unr: "node_at fs img \<noteq> Some Unreadable" and k: "k < 100" and j: "j < 3"
  shows "run_intr (Some (2 + 3 * k + j)) (animation_try fs img) st =
    (Inl KeyboardInterrupt,
     st\<lparr>stdout := stdout st @ cursor_sequence 5 1
          @ image_text fs img background_opts
          @ concat (map (frame_text fs img) [0..<k])
          @ (if j = 0 then []
             else if j = 1 then cursor_sequence (frame_row k) (frame_col k)
             else frame_text fs img k),
         stderr := stderr st @ error_text fs img
          @ concat (replicate (if j = 2 then Suc k else k) (error_text fs img)),
         slept := slept st + k\<rparr>)"
  by (simp add: animation_try_def ok_def move_cursor_small write_out_def
      display_image_effect [OF unr] frames_interrupted [OF unr k j] del: replicate.simps)

lemma animation_try_at_0:
  "run_intr (Some 0) (animation_try fs img) st = (Inl KeyboardInterrupt, st)"
  by (simp add: animation_try_def)

lemma animation_try_at_1:
  "run_intr (Some (Suc 0)) (animation_try fs img) st =
     (Inl KeyboardInterrupt, st\<lparr>stdout := stdout st @ cursor_sequence 5 1\<rparr>)"
  by (simp add: animation_try_def move_cursor_small write_out_def)

section \<open>The animation phase\<close>

lemma demo_animation_unfold:
  assumes sample: "find_sample fs image_dir = Some img"
  shows "demo_animation fs image_dir intr st =
    run [animation_guarded fs img intr, move_cursor 25 1,
         ok (py_print ''Press Enter to continue...''), py_input]
      (st\<lparr>stdout := stdout st @ CHR 0x1B # ''[2J'' @ CHR 0x1B # ''[H''
          @ ''GT Terminal Advanced Image Demo - Animation'' @ [CHR 0x0A]
          @ ''========================================='' @ [CHR 0x0A]
          @ ''Press Ctrl+C to stop the animation'' @ [CHR 0x0A] @ [CHR 0x0A]\<rparr>)"
  by (simp add: demo_animation_def sample ok_def py_print_def write_out_def clear_screen_def
      ESC_def NL_def split: prod.splits sum.splits)

lemma demo_animation_complete:
  assumes sample: "find_sample fs image_dir = Some img"
    and unr: "node_at fs img \<noteq> Some Unreadable"
    and inp: "stdin st = l # ls"
  shows "demo_animation fs image_dir None st =
    (Inr (), st\<lparr>stdout := stdout st @ CHR 0x1B # ''[2J'' @ CHR 0x1B # ''[H''
          @ ''GT Terminal Advanced Image Demo - Animation'' @ [CHR 0x0A]
          @ ''========================================='' @ [CHR 0x0A]
          @ ''Press Ctrl+C to stop the animation'' @ [CHR 0x0A] @ [CHR 0x0A]
          @ cursor_sequence 5 1 @ image_text fs img background_opts
          @ concat (map (frame_text fs img) [0..<100])
          @ cursor_sequence 25 1 @ ''Press Enter to continue...'' @ [CHR 0x0A],
       stderr := stderr st @ concat (replicate 101 (error_text fs img)),
       stdin := ls, slept := slept st + 100\<rparr>)"
  unfolding demo_animation_unfold [OF sample]
  by (simp add: animation_guarded_def run_intr_None animation_try_complete [OF unr]
      move_cursor_small ok_def py_print_def py_input_def write_out_def inp NL_def
      del: replicate.simps)

lemma demo_animation_interrupted:
  assumes sample: "find_sample fs image_dir = Some img"
    and unr: "node_at fs img \<noteq> Some Unreadable"
    and inp: "stdin st = l # ls"
    and k: "k < 100" and j: "j < 3"
  shows "demo_animation fs image_dir (Some (2 + 3 * k + j)) st =
    (Inr (), st\<lparr>stdout := stdout st @ CHR 0x1B # ''[2J'' @ CHR 0x1B # ''[H''
          @ ''GT Terminal Advanced Image Demo - Animation'' @ [CHR 0x0A]
          @ ''========================================='' @ [CHR 0x0A]
          @ ''Press Ctrl+C to stop the animation'' @ [CHR 0x0A] @ [CHR 0x0A]
          @ cursor_sequence 5 1 @ image_text fs img background_opts
          @ concat (map (frame_text fs img) [0..<k])
          @ (if j = 0 then []
             else if j = 1 then cursor_sequence (frame_row k) (frame_col k)
             else frame_text fs img k)
          @ CHR 0x0A # ''Animation stopped.'' @ [CHR 0x0A]
          @ cursor_sequence 25 1 @ ''Press Enter to continue...'' @ [CHR 0x0A],
       stderr := stderr st @ error_text fs img
          @ concat (replicate (if j = 2 then Suc k else k) (error_text fs img)),
       stdin := ls, slept := slept st + k\<rparr>)"
  unfolding demo_animation_unfold [OF sample] animation_guarded_def run.simps
    animation_try_interrupted [OF unr k j]
  by (simp add: move_cursor_small ok_def py_print_def py_input_def write_out_def inp NL_def
      del: replicate.simps)

lemma demo_animation_late:
  assumes "302 \<le> n"
  shows "demo_animation fs image_dir (Some n) st = demo_animation fs image_dir None st"
proof -
  have "animation_guarded fs img (Some n) = animation_guarded fs img None" for img
    using assms by (simp add: animation_guarded_def run_intr_late run_intr_None
        length_animation_try fun_eq_iff)
  then show ?thesis
    by (cases "find_sample fs image_dir") (simp_all add: demo_animation_def)
qed

lemma demo_animation_early:
  assumes sample: "find_sample fs image_dir = Some img"
    and inp: "stdin st = l # ls"
    and n: "n < 2"
  shows "demo_animation fs image_dir (Some n) st =
    (Inr (), st\<lparr>stdout := stdout st @ CHR 0x1B # ''[2J'' @ CHR 0x1B # ''[H''
          @ ''GT Terminal Advanced Image Demo - Animation'' @ [CHR 0x0A]
          @ ''========================================='' @ [CHR 0x0A]
          @ ''Press Ctrl+C to stop the animation'' @ [CHR 0x0A] @ [CHR 0x0A]
          @ (if n = 0 then [] else cursor_sequence 5 1)
          @ CHR 0x0A # ''Animation stopped.'' @ [CHR 0x0A]
          @ cursor_sequence 25 1 @ ''Press Enter to continue...'' @ [CHR 0x0A],
       stdin := ls\<rparr>)"
proof -
  from n have "n = 0 \<or> n = 1" by arith
  then show ?thesis
    unfolding demo_animation_unfold [OF sample] animation_guarded_def run.simps
    by (elim disjE)
      (simp_all add: animation_try_at_0 animation_try_at_1
        move_cursor_small ok_def py_print_def py_input_def write_out_def inp NL_def)
qed

lemma demo_animation_bounded:
  assumes sample: "find_sample fs image_dir = Some img"
    and unr: "node_at fs img \<noteq> Some Unreadable"
    and inp: "stdin st = l # ls"
  shows "fst (demo_animation fs image_dir intr st) = Inr ()
    \<and> stdin (snd (demo_animation fs image_dir intr st)) = ls
    \<and> slept (snd (demo_animation fs image_dir intr st)) \<le> slept st + 100"
proof (cases intr)
  case None
  then show ?thesis
    by (simp add: demo_animation_complete [OF sample unr inp] del: replicate.simps)
next
  case (Some n)
  consider "n < 2" | "2 \<le> n" "n < 302" | "302 \<le> n" by linarith
  then show ?thesis
  proof cases
    case 1
    then show ?thesis
      by (simp add: Some demo_animation_early [OF sample inp])
  next
    case 2
    define k where "k = (n - 2) div 3"
    define j where "j = (n - 2) mod 3"
    from 2 have k: "k < 100" and j: "j < 3" and n: "n = 2 + 3 * k + j"
      by (simp_all add: k_def j_def less_mult_imp_div_less)
    from k show ?thesis
      unfolding Some n demo_animation_interrupted [OF sample unr inp k j]
      by (simp del: replicate.simps)
  next
    case 3
    then show ?thesis
      by (simp add: Some demo_animation_late demo_animation_complete [OF sample unr inp]
          del: replicate.simps)
  qed
qed

section \<open>The other phases and \<open>main\<close>\<close>

lemma find_sample_in_glob:
  "find_sample fs image_dir = Some img \<Longrightarrow>
     img \<in> set (glob fs image_dir ''*.jpg'' @ glob fs image_dir ''*.png'')"
  by (auto simp: find_sample_def split: list.splits)

lemma find_sample_some:
  "glob fs image_dir ''*.jpg'' @ glob fs image_dir ''*.png'' \<noteq> [] \<Longrightarrow>
     \<exists>img. find_sample fs image_dir = Some img"
  by (auto simp: find_sample_def split: list.splits)

lemma run_Cons_fst:
  "run (c # cs) st = (if fst (c st) = Inr () then run cs (snd (c st)) else c st)"
  by (cases "c st") (auto split: sum.splits)

lemma effect_effect:
  "effect out2 err2 t2 (effect out1 err1 t1 st) = effect (out1 @ out2) (err1 @ err2) (t1 + t2) st"
  by (simp add: effect_def)

lemma print_effect: "ok (py_print s) st = (Inr (), effect (s @ [NL]) [] 0 st)"
  by (simp add: ok_def py_print_def write_out_def effect_def)

lemma clear_screen_effect:
  "ok clear_screen st = (Inr (), effect (ESC # ''[2J'' @ ESC # ''[H'') [] 0 st)"
  by (simp add: ok_def clear_screen_def write_out_def effect_def)

lemma sleep_effect: "ok (sleep t) st = (Inr (), effect [] [] t st)"
  by (simp add: ok_def sleep_def effect_def)

lemma move_cursor_effect:
  assumes "0 \<le> row" "row < 100" "0 \<le> col" "col < 100"
  shows "move_cursor row col st = (Inr (), effect (cursor_sequence row col) [] 0 st)"
  by (simp add: move_cursor_small [OF assms] write_out_def effect_def)

lemma display_image_as_effect:
  assumes "node_at fs path \<noteq> Some Unreadable"
  shows "display_image fs path opts st =
    (Inr (), effect (image_text fs path opts) (error_text fs path) 0 st)"
  by (simp add: display_image_effect [OF assms] effect_def)

lemma input_after_effect:
  assumes "stdin st = l # ls"
  shows "py_input (effect out err t st) = (Inr (), (effect out err t st)\<lparr>stdin := ls\<rparr>)"
  using assms by (simp add: py_input_def effect_def)

lemmas effects = run_Cons_fst effect_effect print_effect clear_screen_effect sleep_effect
  move_cursor_effect display_image_as_effect input_after_effect

lemma demo_basic_exact:
  assumes sample: "find_sample fs image_dir = Some img"
    and unr: "node_at fs img \<noteq> Some Unreadable"
    and inp: "stdin st = l # ls"
  shows "demo_basic fs image_dir st =
    (Inr (), st\<lparr>stdout := stdout st @ CHR 0x1B # ''[2J'' @ CHR 0x1B # ''[H''
          @ ''GT Terminal Advanced Image Demo - Basic Display'' @ [CHR 0x0A]
          @ ''=============================================='' @ [CHR 0x0A] @ [CHR 0x0A]
          @ ''1. Default size (auto):'' @ [CHR 0x0A]
          @ image_text fs img [] @ replicate 8 (CHR 0x0A) @ [CHR 0x0A]
          @ ''2. Fixed width (400px):'' @ [CHR 0x0A]
          @ image_text fs img [(''width'', ''400px'')] @ replicate 8 (CHR 0x0A) @ [CHR 0x0A]
          @ ''3. Fixed height (200px):'' @ [CHR 0x0A]
          @ image_text fs img [(''height'', ''200px'')] @ replicate 8 (CHR 0x0A) @ [CHR 0x0A]
          @ ''4. Percentage width (50%):'' @ [CHR 0x0A]
          @ image_text fs img [(''width'', ''50%'')] @ replicate 8 (CHR 0x0A) @ [CHR 0x0A]
          @ ''Press Enter to continue...'' @ [CHR 0x0A],
       stderr := stderr st @ error_text fs img @ error_text fs img @ error_text fs img
          @ error_text fs img,
       stdin := ls\<rparr>)"
proof -
  have "demo_basic fs image_dir st = (Inr (),
      (effect (ESC # ''[2J'' @ ESC # ''[H''
          @ ''GT Terminal Advanced Image Demo - Basic Display'' @ [NL]
          @ ''=============================================='' @ [NL] @ [NL]
          @ ''1. Default size (auto):'' @ [NL]
          @ image_text fs img [] @ replicate 8 NL @ [NL]
          @ ''2. Fixed width (400px):'' @ [NL]
          @ image_text fs img [(''width'', ''400px'')] @ replicate 8 NL @ [NL]
          @ ''3. Fixed height (200px):'' @ [NL]
          @ image_text fs img [(''height'', ''200px'')] @ replicate 8 NL @ [NL]
          @ ''4. Percentage width (50%):'' @ [NL]
          @ image_text fs img [(''width'', ''50%'')] @ replicate 8 NL @ [NL]
          @ ''Press Enter to continue...'' @ [NL])
        (error_text fs img @ error_text fs img @ error_text fs img @ error_text fs img) 0 st)
      \<lparr>stdin := ls\<rparr>)"
    by (simp add: demo_basic_def sample effects unr inp del: run.simps(2))
  then show ?thesis
    by (simp add: effect_def NL_def ESC_def)
qed

lemma demo_alignment_exact:
  assumes sample: "find_sample fs image_dir = Some img"
    and unr: "node_at fs img \<noteq> Some Unreadable"
    and inp: "stdin st = l # ls"
  shows "demo_alignment fs image_dir st =
    (Inr (), st\<lparr>stdout := stdout st @ CHR 0x1B # ''[2J'' @ CHR 0x1B # ''[H''
          @ ''GT Terminal Advanced Image Demo - Alignment'' @ [CHR 0x0A]
          @ ''========================================='' @ [CHR 0x0A] @ [CHR 0x0A]
          @ ''1. Left alignment (default):'' @ [CHR 0x0A]
          @ image_text fs img [(''width'', ''200px''), (''align'', ''left'')]
          @ replicate 5 (CHR 0x0A) @ [CHR 0x0A]
          @ ''2. Center alignment:'' @ [CHR 0x0A]
          @ image_text fs img [(''width'', ''200px''), (''align'', ''center'')]
          @ replicate 5 (CHR 0x0A) @ [CHR 0x0A]
          @ ''3. Right alignment:'' @ [CHR 0x0A]
          @ image_text fs img [(''width'', ''200px''), (''align'', ''right'')]
          @ replicate 5 (CHR 0x0A) @ [CHR 0x0A]
          @ ''Press Enter to continue...'' @ [CHR 0x0A],
       stderr := stderr st @ error_text fs img @ error_text fs img @ error_text fs img,
       stdin := ls\<rparr>)"
proof -
  have "demo_alignment fs image_dir st = (Inr (),
      (effect (ESC # ''[2J'' @ ESC # ''[H''
          @ ''GT Terminal Advanced Image Demo - Alignment'' @ [NL]
          @ ''========================================='' @ [NL] @ [NL]
          @ ''1. Left alignment (default):'' @ [NL]
          @ image_text fs img [(''width'', ''200px''), (''align'', ''left'')]
          @ replicate 5 NL @ [NL]
          @ ''2. Center alignment:'' @ [NL]
          @ image_text fs img [(''width'', ''200px''), (''align'', ''center'')]
          @ replicate 5 NL @ [NL]
          @ ''3. Right alignment:'' @ [NL]
          @ image_text fs img [(''width'', ''200px''), (''align'', ''right'')]
          @ replicate 5 NL @ [NL]
          @ ''Press Enter to continue...'' @ [NL])
        (error_text fs img @ error_text fs img @ error_text fs img) 0 st)
      \<lparr>stdin := ls\<rparr>)"
    by (simp add: demo_alignment_def sample effects unr inp del: run.simps(2))
  then show ?thesis
    by (simp add: effect_def NL_def ESC_def)
qed

lemma demo_z_index_exact:
  assumes images: "glob fs image_dir ''*.jpg'' @ glob fs image_dir ''*.png'' = img1 # img2 # rest"
    and unr1: "node_at fs img1 \<noteq> Some Unreadable"
    and unr2: "node_at fs img2 \<noteq> Some Unreadable"
    and inp: "stdin st = l # ls"
  shows "demo_z_index fs image_dir st =
    (Inr (), st\<lparr>stdout := stdout st @ CHR 0x1B # ''[2J'' @ CHR 0x1B # ''[H''
          @ ''GT Terminal Advanced Image Demo - Z-index Layering'' @ [CHR 0x0A]
          @ ''================================================'' @ [CHR 0x0A] @ [CHR 0x0A]
          @ ''Displaying overlapping images with different z-index values:'' @ [CHR 0x0A]
          @ ''(Notice how they stack on top of each other)'' @ [CHR 0x0A] @ [CHR 0x0A]
          @ cursor_sequence 6 5
          @ image_text fs img1 [(''width'', ''40%''), (''z-index'', ''1''), (''name'', ''back_image'')]
          @ cursor_sequence 8 15
          @ image_text fs img2 [(''width'', ''40%''), (''z-index'', ''2''), (''name'', ''front_image'')]
          @ cursor_sequence 15 1
          @ ''Second image (z-index=2) appears on top of the first image (z-index=1)'' @ [CHR 0x0A]
          @ [CHR 0x0A]
          @ ''Press Enter to continue...'' @ [CHR 0x0A],
       stderr := stderr st @ error_text fs img1 @ error_text fs img2,
       stdin := ls, slept := slept st + 5\<rparr>)"
proof -
  have "demo_z_index fs image_dir st = (Inr (),
      (effect (ESC # ''[2J'' @ ESC # ''[H''
          @ ''GT Terminal Advanced Image Demo - Z-index Layering'' @ [NL]
          @ ''================================================'' @ [NL] @ [NL]
          @ ''Displaying overlapping images with different z-index values:'' @ [NL]
          @ ''(Notice how they stack on top of each other)'' @ [NL] @ [NL]
          @ cursor_sequence 6 5
          @ image_text fs img1 [(''width'', ''40%''), (''z-index'', ''1''), (''name'', ''back_image'')]
          @ cursor_sequence 8 15
          @ image_text fs img2 [(''width'', ''40%''), (''z-index'', ''2''), (''name'', ''front_image'')]
          @ cursor_sequence 15 1
          @ ''Second image (z-index=2) appears on top of the first image (z-index=1)'' @ [NL]
          @ [NL]
          @ ''Press Enter to continue...'' @ [NL])
        (error_text fs img1 @ error_text fs img2) 5 st)
      \<lparr>stdin := ls\<rparr>)"
    by (simp add: demo_z_index_def images effects unr1 unr2 inp del: run.simps(2))
  then show ?thesis
    by (simp add: effect_def NL_def ESC_def)
qed

lemma demo_z_index_single:
  assumes images: "glob fs image_dir ''*.jpg'' @ glob fs image_dir ''*.png'' = [img1]"
  shows "demo_z_index fs image_dir st =
    (Inr (), st\<lparr>stdout := stdout st @ CHR 0x1B # ''[2J'' @ CHR 0x1B # ''[H''
          @ ''GT Terminal Advanced Image Demo - Z-index Layering'' @ [CHR 0x0A]
          @ ''================================================'' @ [CHR 0x0A] @ [CHR 0x0A]
          @ ''Need at least 2 images for the z-index demo.'' @ [CHR 0x0A]\<rparr>)"
  by (simp add: demo_z_index_def images ok_def py_print_def write_out_def clear_screen_def
      NL_def ESC_def)

lemma main_exact:
  assumes dir: "is_dir fs image_dir"
    and some: "glob fs image_dir ''*.jpg'' @ glob fs image_dir ''*.png'' \<noteq> []"
    and readable: "\<forall>p \<in> set (glob fs image_dir ''*.jpg'' @ glob fs image_dir ''*.png'').
      node_at fs p \<noteq> Some Unreadable"
    and inp: "4 \<le> length (stdin st)"
  shows "main fs image_dir intr st =
    (Inr (),
     py_print ''Thank you for trying the advanced image features!''
       (py_print ''========================================''
         (py_print ''GT Terminal Advanced Image Demo - Complete''
           (clear_screen
             (snd (demo_animation fs image_dir intr
               (snd (demo_z_index fs image_dir
                 (snd (demo_alignment fs image_dir
                   (snd (demo_basic fs image_dir
                     (py_print (''Found ''
                        @ str_nat (length (glob fs image_dir ''*.jpg'' @ glob fs image_dir ''*.png''))
                        @ '' images in '' @ image_dir) st)))))))))))))"
proof -
  define st0 where "st0 = py_print (''Found ''
      @ str_nat (length (glob fs image_dir ''*.jpg'' @ glob fs image_dir ''*.png''))
      @ '' images in '' @ image_dir) st"
  define st1 where "st1 = snd (demo_basic fs image_dir st0)"
  define st2 where "st2 = snd (demo_alignment fs image_dir st1)"
  define st3 where "st3 = snd (demo_z_index fs image_dir st2)"
  define st4 where "st4 = snd (demo_animation fs image_dir intr st3)"
  from find_sample_some [OF some] obtain img where sample: "find_sample fs image_dir = Some img"
    by blast
  from find_sample_in_glob [OF sample] readable have unr: "node_at fs img \<noteq> Some Unreadable"
    by blast
  from inp have "4 \<le> length (stdin st0)"
    by (simp add: st0_def py_print_def write_out_def)
  then obtain l0 ls0 where i0: "stdin st0 = l0 # ls0" and n0: "3 \<le> length ls0"
    by (cases "stdin st0") auto
  from demo_basic_exact [OF sample unr i0]
  have r1: "fst (demo_basic fs image_dir st0) = Inr ()" and "stdin st1 = ls0"
    by (simp_all add: st1_def)
  with n0 obtain l1 ls1 where i1: "stdin st1 = l1 # ls1" and n1: "2 \<le> length ls1"
    by (cases ls0) auto
  from demo_alignment_exact [OF sample unr i1]
  have r2: "fst (demo_alignment fs image_dir st1) = Inr ()" and "stdin st2 = ls1"
    by (simp_all add: st2_def)
  with n1 obtain l2 ls2 where i2: "stdin st2 = l2 # ls2" and n2: "1 \<le> length ls2"
    by (cases ls1) auto
  have r3: "fst (demo_z_index fs image_dir st2) = Inr ()" and n3: "stdin st3 \<noteq> []"
  proof -
    from some obtain img1 more where images:
      "glob fs image_dir ''*.jpg'' @ glob fs image_dir ''*.png'' = img1 # more"
      by (cases "glob fs image_dir ''*.jpg'' @ glob fs image_dir ''*.png''") auto
    have "fst (demo_z_index fs image_dir st2) = Inr () \<and> stdin st3 \<noteq> []"
    proof (cases more)
      case Nil
      with images demo_z_index_single [of fs image_dir img1 st2] i2 show ?thesis
        by (simp add: st3_def)
    next
      case (Cons img2 rest)
      with images have both: "glob fs image_dir ''*.jpg'' @ glob fs image_dir ''*.png''
          = img1 # img2 # rest"
        by simp
      with readable have "node_at fs img1 \<noteq> Some Unreadable"
        and "node_at fs img2 \<noteq> Some Unreadable"
        by simp_all
      from demo_z_index_exact [OF both this i2] n2 show ?thesis
        by (auto simp: st3_def)
    qed
    then show "fst (demo_z_index fs image_dir st2) = Inr ()" and "stdin st3 \<noteq> []"
      by simp_all
  qed
  from n3 obtain l3 ls3 where i3: "stdin st3 = l3 # ls3"
    by (cases "stdin st3") auto
  from demo_animation_bounded [OF sample unr i3, of intr]
  have r4: "fst (demo_animation fs image_dir intr st3) = Inr ()"
    by simp
  have "run [demo_basic fs image_dir, demo_alignment fs image_dir, demo_z_index fs image_dir,
             demo_animation fs image_dir intr, ok clear_screen,
             ok (py_print ''GT Terminal Advanced Image Demo - Complete''),
             ok (py_print ''========================================''),
             ok (py_print ''Thank you for trying the advanced image features!'')] st0
      = (Inr (),
         py_print ''Thank you for trying the advanced image features!''
           (py_print ''========================================''
             (py_print ''GT Terminal Advanced Image Demo - Complete'' (clear_screen st4))))"
    using r1 r2 r3 r4
    by (simp add: run_Cons_returns st1_def [symmetric] st2_def [symmetric] st3_def [symmetric]
        st4_def [symmetric] ok_def del: run.simps(2))
  with dir some show ?thesis
    by (simp add: main_def Let_def st0_def st1_def st2_def st3_def st4_def del: run.simps)
qed

section \<open>The animation phase: bounded, deterministic, interruptible\<close>

text \<open>
  C9: the animation phase runs the body of its loop at most 100 times, so it sleeps for at
  most 100 tenths of a second and ends; iteration \<open>i\<close> moves the cursor to row
  \<open>7 + |i mod 20 - 10|\<close> and column \<open>10 + i mod 40\<close>, which depend on \<open>i\<close> only; and
  when the user interrupts the loop in iteration \<open>k\<close>, after \<open>j\<close> of its three calls,
  the loop stops there, \<open>Animation stopped.\<close> is printed, and the phase goes on to its
  prompt and returns normally once the user answers it, so that \<open>main\<close> goes on to its
  closing banner and ends with exit code 0. Here the sample image is any path that
  \<open>open\<close> does not refuse. The state that the phase returns is given in full, without
  and with the interrupt.
\<close>

theorem animation_bounded_interruptible:
  assumes sample: "find_sample fs image_dir = Some img"
    and unr: "node_at fs img \<noteq> Some Unreadable"
    and inp: "stdin st = l # ls"
  shows "demo_animation fs image_dir None st =
      (Inr (), st\<lparr>stdout := stdout st @ CHR 0x1B # ''[2J'' @ CHR 0x1B # ''[H''
          @ ''GT Terminal Advanced Image Demo - Animation'' @ [CHR 0x0A]
          @ ''========================================='' @ [CHR 0x0A]
          @ ''Press Ctrl+C to stop the animation'' @ [CHR 0x0A] @ [CHR 0x0A]
            @ cursor_sequence 5 1 @ image_text fs img background_opts
            @ concat (map (frame_text fs img) [0..<100])
            @ cursor_sequence 25 1 @ ''Press Enter to continue...'' @ [CHR 0x0A],
         stderr := stderr st @ concat (replicate 101 (error_text fs img)),
         stdin := ls, slept := slept st + 100\<rparr>)
    \<and> (\<forall>k j. k < 100 \<and> j < 3 \<longrightarrow>
          demo_animation fs image_dir (Some (2 + 3 * k + j)) st =
            (Inr (), st\<lparr>stdout := stdout st @ CHR 0x1B # ''[2J'' @ CHR 0x1B # ''[H''
          @ ''GT Terminal Advanced Image Demo - Animation'' @ [CHR 0x0A]
          @ ''========================================='' @ [CHR 0x0A]
          @ ''Press Ctrl+C to stop the animation'' @ [CHR 0x0A] @ [CHR 0x0A]
                  @ cursor_sequence 5 1 @ image_text fs img background_opts
                  @ concat (map (frame_text fs img) [0..<k])
                  @ (if j = 0 then []
                     else if j = 1 then cursor_sequence (frame_row k) (frame_col k)
                     else frame_text fs img k)
                  @ CHR 0x0A # ''Animation stopped.'' @ [CHR 0x0A]
                  @ cursor_sequence 25 1 @ ''Press Enter to continue...'' @ [CHR 0x0A],
               stderr := stderr st @ error_text fs img
                  @ concat (replicate (if j = 2 then Suc k else k) (error_text fs img)),
               stdin := ls, slept := slept st + k\<rparr>))
    \<and> (\<forall>intr. fst (demo_animation fs image_dir intr st) = Inr ()
          \<and> stdin (snd (demo_animation fs image_dir intr st)) = ls
          \<and> slept (snd (demo_animation fs image_dir intr st)) \<le> slept st + 100)
    \<and> (\<forall>i. frame_text fs img i =
              cursor_sequence (7 + abs (int (i mod 20) - 10)) (10 + int (i mod 40))
              @ image_text fs img frame_opts
            \<and> frame_row i = 7 + abs (int (i mod 20) - 10) \<and> frame_col i = 10 + int (i mod 40))
    \<and> (\<forall>r c. cursor_sequence r c = CHR 0x1B # ''['' @ decimal r @ '';'' @ decimal c @ ''H'')
    \<and> (\<forall>opts s. display_image fs img opts s =
              (Inr (), s\<lparr>stdout := stdout s @ image_text fs img opts,
                          stderr := stderr s @ error_text fs img\<rparr>))
    \<and> (\<forall>intr s. is_dir fs image_dir \<and> 4 \<le> length (stdin s) \<and> (\<forall>p \<in> set (glob fs image_dir ''*.jpg'' @ glob fs image_dir ''*.png''). node_at fs p \<noteq> Some Unreadable) \<longrightarrow>
          main fs image_dir intr s =
            (Inr (),
             py_print ''Thank you for trying the advanced image features!''
               (py_print ''========================================''
                 (py_print ''GT Terminal Advanced Image Demo - Complete''
                   (clear_screen
                     (snd (demo_animation fs image_dir intr
                       (snd (demo_z_index fs image_dir
                         (snd (demo_alignment fs image_dir
                           (snd (demo_basic fs image_dir
                             (py_print (''Found ''
                                @ str_nat (length (glob fs image_dir ''*.jpg''
                                                   @ glob fs image_dir ''*.png''))
                                @ '' images in '' @ image_dir) s)))))))))))))
          \<and> exit_code (fst (main fs image_dir intr s)) = 0)"
proof (intro conjI allI impI)
  show "demo_animation fs image_dir None st =
      (Inr (), st\<lparr>stdout := stdout st @ CHR 0x1B # ''[2J'' @ CHR 0x1B # ''[H''
          @ ''GT Terminal Advanced Image Demo - Animation'' @ [CHR 0x0A]
          @ ''========================================='' @ [CHR 0x0A]
          @ ''Press Ctrl+C to stop the animation'' @ [CHR 0x0A] @ [CHR 0x0A]
            @ cursor_sequence 5 1 @ image_text fs img background_opts
            @ concat (map (frame_text fs img) [0..<100])
            @ cursor_sequence 25 1 @ ''Press Enter to continue...'' @ [CHR 0x0A],
         stderr := stderr st @ concat (replicate 101 (error_text fs img)),
         stdin := ls, slept := slept st + 100\<rparr>)"
    by (rule demo_animation_complete [OF sample unr inp])
next
  fix k j :: nat
  assume "k < 100 \<and> j < 3"
  then have k: "k < 100" and j: "j < 3" by simp_all
  show "demo_animation fs image_dir (Some (2 + 3 * k + j)) st =
            (Inr (), st\<lparr>stdout := stdout st @ CHR 0x1B # ''[2J'' @ CHR 0x1B # ''[H''
          @ ''GT Terminal Advanced Image Demo - Animation'' @ [CHR 0x0A]
          @ ''========================================='' @ [CHR 0x0A]
          @ ''Press Ctrl+C to stop the animation'' @ [CHR 0x0A] @ [CHR 0x0A]
                  @ cursor_sequence 5 1 @ image_text fs img background_opts
                  @ concat (map (frame_text fs img) [0..<k])
                  @ (if j = 0 then []
                     else if j = 1 then cursor_sequence (frame_row k) (frame_col k)
                     else frame_text fs img k)
                  @ CHR 0x0A # ''Animation stopped.'' @ [CHR 0x0A]
                  @ cursor_sequence 25 1 @ ''Press Enter to continue...'' @ [CHR 0x0A],
               stderr := stderr st @ error_text fs img
                  @ concat (replicate (if j = 2 then Suc k else k) (error_text fs img)),
               stdin := ls, slept := slept st + k\<rparr>)"
    by (rule demo_animation_interrupted [OF sample unr inp k j])
next
  fix intr
  show "fst (demo_animation fs image_dir intr st) = Inr ()"
    and "stdin (snd (demo_animation fs image_dir intr st)) = ls"
    and "slept (snd (demo_animation fs image_dir intr st)) \<le> slept st + 100"
    using demo_animation_bounded [OF sample unr inp, of intr] by simp_all
next
  fix i
  show "frame_text fs img i =
              cursor_sequence (7 + abs (int (i mod 20) - 10)) (10 + int (i mod 40))
              @ image_text fs img frame_opts"
    by (simp only: frame_text_def frame_row_def frame_col_def)
  show "frame_row i = 7 + abs (int (i mod 20) - 10)"
    by (simp only: frame_row_def)
  show "frame_col i = 10 + int (i mod 40)"
    by (simp only: frame_col_def)
next
  fix r c
  show "cursor_sequence r c = CHR 0x1B # ''['' @ decimal r @ '';'' @ decimal c @ ''H''"
    by (simp add: cursor_sequence_def ESC_def)
next
  fix opts s
  show "display_image fs img opts s =
              (Inr (), s\<lparr>stdout := stdout s @ image_text fs img opts,
                          stderr := stderr s @ error_text fs img\<rparr>)"
    by (rule display_image_effect [OF unr])
next
  fix intr and s :: io
  assume h: "is_dir fs image_dir \<and> 4 \<le> length (stdin s) \<and> (\<forall>p \<in> set (glob fs image_dir ''*.jpg'' @ glob fs image_dir ''*.png''). node_at fs p \<noteq> Some Unreadable)"
  from find_sample_in_glob [OF sample]
  have some: "glob fs image_dir ''*.jpg'' @ glob fs image_dir ''*.png'' \<noteq> []"
    by auto
  from h have dir: "is_dir fs image_dir" and n: "4 \<le> length (stdin s)"
    and readable: "\<forall>p \<in> set (glob fs image_dir ''*.jpg'' @ glob fs image_dir ''*.png''). node_at fs p \<noteq> Some Unreadable"
    by simp_all
  show m: "main fs image_dir intr s =
            (Inr (),
             py_print ''Thank you for trying the advanced image features!''
               (py_print ''========================================''
                 (py_print ''GT Terminal Advanced Image Demo - Complete''
                   (clear_screen
                     (snd (demo_animation fs image_dir intr
                       (snd (demo_z_index fs image_dir
                         (snd (demo_alignment fs image_dir
                           (snd (demo_basic fs image_dir
                             (py_print (''Found ''
                                @ str_nat (length (glob fs image_dir ''*.jpg''
                                                   @ glob fs image_dir ''*.png''))
                                @ '' images in '' @ image_dir) s)))))))))))))"
    by (rule main_exact [OF dir some readable n])
  show "exit_code (fst (main fs image_dir intr s)) = 0"
    unfolding m by simp
qed

theorem animation_bounded_interruptible_witness:
  "find_sample example_fs ''pics'' = Some ''pics/a.jpg''
   \<and> node_at example_fs ''pics/a.jpg'' \<noteq> Some Unreadable
   \<and> stdin four_enters = [] # [[], [], []]
   \<and> (0 :: nat) < 100 \<and> (1 :: nat) < 3
   \<and> is_dir example_fs ''pics'' \<and> 4 \<le> length (stdin four_enters)
   \<and> glob example_fs ''pics'' ''*.jpg'' @ glob example_fs ''pics'' ''*.png''
       = [''pics/a.jpg'', ''pics/b.png'']
   \<and> node_at example_fs ''pics/b.png'' \<noteq> Some Unreadable
   \<and> demo_animation example_fs ''pics'' (Some 3) four_enters =
       (Inr (), four_enters\<lparr>stdout :=
          CHR 0x1B # ''[2J'' @ CHR 0x1B # ''[H''
          @ ''GT Terminal Advanced Image Demo - Animation'' @ [CHR 0x0A]
          @ ''========================================='' @ [CHR 0x0A]
          @ ''Press Ctrl+C to stop the animation'' @ [CHR 0x0A] @ [CHR 0x0A]
          @ CHR 0x1B # ''[5;1H'' @ CHR 0x1B
          # '']1337;File=inline=1;width=80%;height=80%;align=center;z-index=1;name=background;persistent=1:/9j/''
          @ [CHR 0x07] @ CHR 0x1B # ''[17;10H'' @ [CHR 0x0A] @ ''Animation stopped.'' @ [CHR 0x0A]
          @ CHR 0x1B # ''[25;1H'' @ ''Press Enter to continue...'' @ [CHR 0x0A],
          stdin := [[], [], []]\<rparr>)
   \<and> exit_code (fst (main example_fs ''pics'' (Some 3) four_enters)) = 0"
proof -
  have s: "find_sample example_fs ''pics'' = Some ''pics/a.jpg''"
    by (simp add: find_sample_def example_fs_def)
  have r: "node_at example_fs ''pics/a.jpg'' = Some (RegFile [0xFF, 0xD8, 0xFF])"
    by (simp add: example_fs_def)
  have u: "node_at example_fs ''pics/a.jpg'' \<noteq> Some Unreadable"
    "node_at example_fs ''pics/b.png'' \<noteq> Some Unreadable"
    by (simp_all add: example_fs_def)
  have i: "stdin four_enters = [] # [[], [], []]"
    by (simp add: four_enters_def)
  have d: "is_dir example_fs ''pics''"
    by (simp add: is_dir_def example_fs_def)
  have n: "4 \<le> length (stdin four_enters)"
    by (simp add: four_enters_def)
  have g: "glob example_fs ''pics'' ''*.jpg'' @ glob example_fs ''pics'' ''*.png''
       = [''pics/a.jpg'', ''pics/b.png'']"
    by (simp add: example_fs_def)
  note T = animation_bounded_interruptible [OF s u(1) i]
  have kj: "(0 :: nat) < 100 \<and> (1 :: nat) < 3" by simp
  have enc: "b64encode [0xFF, 0xD8, 0xFF] = ''/9j/''"
    by (simp add: b64_char_def b64_alphabet_def)
  have bg: "image_text example_fs ''pics/a.jpg'' background_opts =
      CHR 0x1B # '']1337;File=inline=1;width=80%;height=80%;align=center;z-index=1;name=background;persistent=1:/9j/''
          @ [CHR 0x07]"
    by (simp add: image_text_def r enc escape_sequence_def build_opts_def background_opts_def
        ESC_def BEL_def del: b64encode.simps)
  have cur: "cursor_sequence 5 1 = CHR 0x1B # ''[5;1H''"
    "cursor_sequence (frame_row 0) (frame_col 0) = CHR 0x1B # ''[17;10H''"
    "cursor_sequence 25 1 = CHR 0x1B # ''[25;1H''"
    by (simp_all add: cursor_sequence_def frame_row_def frame_col_def decimal_def str_nat.simps
        digit_char_def ESC_def)
  have err: "error_text example_fs ''pics/a.jpg'' = []"
    by (simp add: error_text_def isfile_def r)
  from T [THEN conjunct2, THEN conjunct1, rule_format, OF kj]
  have a: "demo_animation example_fs ''pics'' (Some 3) four_enters =
       (Inr (), four_enters\<lparr>stdout :=
          CHR 0x1B # ''[2J'' @ CHR 0x1B # ''[H''
          @ ''GT Terminal Advanced Image Demo - Animation'' @ [CHR 0x0A]
          @ ''========================================='' @ [CHR 0x0A]
          @ ''Press Ctrl+C to stop the animation'' @ [CHR 0x0A] @ [CHR 0x0A]
          @ CHR 0x1B # ''[5;1H'' @ CHR 0x1B
          # '']1337;File=inline=1;width=80%;height=80%;align=center;z-index=1;name=background;persistent=1:/9j/''
          @ [CHR 0x07] @ CHR 0x1B # ''[17;10H'' @ [CHR 0x0A] @ ''Animation stopped.'' @ [CHR 0x0A]
          @ CHR 0x1B # ''[25;1H'' @ ''Press Enter to continue...'' @ [CHR 0x0A],
          stdin := [[], [], []]\<rparr>)"
    by (simp add: bg cur err four_enters_def)
  have "is_dir example_fs ''pics'' \<and> 4 \<le> length (stdin four_enters)
      \<and> (\<forall>p \<in> set (glob example_fs ''pics'' ''*.jpg'' @ glob example_fs ''pics'' ''*.png'').
            node_at example_fs p \<noteq> Some Unreadable)"
    using d n u by (simp add: g)
  from T [THEN conjunct2, THEN conjunct2, THEN conjunct2, THEN conjunct2, THEN conjunct2,
      THEN conjunct2, rule_format, OF this, THEN conjunct2]
  have e: "exit_code (fst (main example_fs ''pics'' (Some 3) four_enters)) = 0" .
  from s u i kj d n g a e show ?thesis by blast
qed

section \<open>A missing image does not stop the demo\<close>

text \<open>
  C10: \<open>display_image\<close> on a path that is not an existing file writes one error line to
  standard error and returns normally, without raising and without ending the process. So
  a missing image does not stop the run: whatever the images that \<open>glob\<close> finds are,
  missing or not (but none that \<open>open\<close> refuses), every phase makes each of its displays,
  prints all of its text and returns, and \<open>main\<close> reaches its closing banner with exit
  code 0, the user answering the prompts. The state that each phase returns is given in
  full; for a missing image the display adds its error line and no escape sequence.
\<close>

theorem missing_image_does_not_abort:
  assumes dir: "is_dir fs image_dir"
    and sample: "find_sample fs image_dir = Some img"
    and readable: "\<forall>p \<in> set (glob fs image_dir ''*.jpg'' @ glob fs image_dir ''*.png''). node_at fs p \<noteq> Some Unreadable"
    and inp: "4 \<le> length (stdin st)"
  shows "(\<forall>path opts s. \<not> isfile fs path \<longrightarrow>
        display_image fs path opts s =
          (Inr (), s\<lparr>stderr := stderr s @ ''Error: Image file not found: '' @ path @ [CHR 0x0A]\<rparr>)
        \<and> image_text fs path opts = []
        \<and> error_text fs path = ''Error: Image file not found: '' @ path @ [CHR 0x0A])
    \<and> (\<forall>p opts s. p \<in> set (glob fs image_dir ''*.jpg'' @ glob fs image_dir ''*.png'') \<longrightarrow>
          display_image fs p opts s =
              (Inr (), s\<lparr>stdout := stdout s @ image_text fs p opts,
                          stderr := stderr s @ error_text fs p\<rparr>))
    \<and> (\<forall>s l ls. stdin s = l # ls \<longrightarrow>
          demo_basic fs image_dir s =
          (Inr (), s\<lparr>stdout := stdout s @ CHR 0x1B # ''[2J'' @ CHR 0x1B # ''[H''
              @ ''GT Terminal Advanced Image Demo - Basic Display'' @ [CHR 0x0A]
              @ ''=============================================='' @ [CHR 0x0A] @ [CHR 0x0A]
              @ ''1. Default size (auto):'' @ [CHR 0x0A]
              @ image_text fs img [] @ replicate 8 (CHR 0x0A) @ [CHR 0x0A]
              @ ''2. Fixed width (400px):'' @ [CHR 0x0A]
              @ image_text fs img [(''width'', ''400px'')] @ replicate 8 (CHR 0x0A) @ [CHR 0x0A]
              @ ''3. Fixed height (200px):'' @ [CHR 0x0A]
              @ image_text fs img [(''height'', ''200px'')] @ replicate 8 (CHR 0x0A) @ [CHR 0x0A]
              @ ''4. Percentage width (50%):'' @ [CHR 0x0A]
              @ image_text fs img [(''width'', ''50%'')] @ replicate 8 (CHR 0x0A) @ [CHR 0x0A]
              @ ''Press Enter to continue...'' @ [CHR 0x0A],
            stderr := stderr s @ error_text fs img @ error_text fs img @ error_text fs img
              @ error_text fs img,
            stdin := ls\<rparr>))
    \<and> (\<forall>s l ls. stdin s = l # ls \<longrightarrow>
          demo_alignment fs image_dir s =
          (Inr (), s\<lparr>stdout := stdout s @ CHR 0x1B # ''[2J'' @ CHR 0x1B # ''[H''
              @ ''GT Terminal Advanced Image Demo - Alignment'' @ [CHR 0x0A]
              @ ''========================================='' @ [CHR 0x0A] @ [CHR 0x0A]
              @ ''1. Left alignment (default):'' @ [CHR 0x0A]
              @ image_text fs img [(''width'', ''200px''), (''align'', ''left'')]
              @ replicate 5 (CHR 0x0A) @ [CHR 0x0A]
              @ ''2. Center alignment:'' @ [CHR 0x0A]
              @ image_text fs img [(''width'', ''200px''), (''align'', ''center'')]
              @ replicate 5 (CHR 0x0A) @ [CHR 0x0A]
              @ ''3. Right alignment:'' @ [CHR 0x0A]
              @ image_text fs img [(''width'', ''200px''), (''align'', ''right'')]
              @ replicate 5 (CHR 0x0A) @ [CHR 0x0A]
              @ ''Press Enter to continue...'' @ [CHR 0x0A],
            stderr := stderr s @ error_text fs img @ error_text fs img @ error_text fs img,
            stdin := ls\<rparr>))
    \<and> (\<forall>img1 img2 rest s l ls.
          glob fs image_dir ''*.jpg'' @ glob fs image_dir ''*.png'' = img1 # img2 # rest \<and> stdin s = l # ls \<longrightarrow>
          demo_z_index fs image_dir s =
          (Inr (), s\<lparr>stdout := stdout s @ CHR 0x1B # ''[2J'' @ CHR 0x1B # ''[H''
              @ ''GT Terminal Advanced Image Demo - Z-index Layering'' @ [CHR 0x0A]
              @ ''================================================'' @ [CHR 0x0A] @ [CHR 0x0A]
              @ ''Displaying overlapping images with different z-index values:'' @ [CHR 0x0A]
              @ ''(Notice how they stack on top of each other)'' @ [CHR 0x0A] @ [CHR 0x0A]
              @ cursor_sequence 6 5
              @ image_text fs img1
                  [(''width'', ''40%''), (''z-index'', ''1''), (''name'', ''back_image'')]
              @ cursor_sequence 8 15
              @ image_text fs img2
                  [(''width'', ''40%''), (''z-index'', ''2''), (''name'', ''front_image'')]
              @ cursor_sequence 15 1
              @ ''Second image (z-index=2) appears on top of the first image (z-index=1)''
              @ [CHR 0x0A] @ [CHR 0x0A]
              @ ''Press Enter to continue...'' @ [CHR 0x0A],
            stderr := stderr s @ error_text fs img1 @ error_text fs img2,
            stdin := ls, slept := slept s + 5\<rparr>))
    \<and> (\<forall>img1 s. glob fs image_dir ''*.jpg'' @ glob fs image_dir ''*.png'' = [img1] \<longrightarrow>
          demo_z_index fs image_dir s =
          (Inr (), s\<lparr>stdout := stdout s @ CHR 0x1B # ''[2J'' @ CHR 0x1B # ''[H''
              @ ''GT Terminal Advanced Image Demo - Z-index Layering'' @ [CHR 0x0A]
              @ ''================================================'' @ [CHR 0x0A] @ [CHR 0x0A]
              @ ''Need at least 2 images for the z-index demo.'' @ [CHR 0x0A]\<rparr>))
    \<and> (\<forall>s l ls. stdin s = l # ls \<longrightarrow>
          demo_animation fs image_dir None s =
      (Inr (), s\<lparr>stdout := stdout s @ CHR 0x1B # ''[2J'' @ CHR 0x1B # ''[H''
          @ ''GT Terminal Advanced Image Demo - Animation'' @ [CHR 0x0A]
          @ ''========================================='' @ [CHR 0x0A]
          @ ''Press Ctrl+C to stop the animation'' @ [CHR 0x0A] @ [CHR 0x0A]
            @ cursor_sequence 5 1 @ image_text fs img background_opts
            @ concat (map (frame_text fs img) [0..<100])
            @ cursor_sequence 25 1 @ ''Press Enter to continue...'' @ [CHR 0x0A],
         stderr := stderr s @ concat (replicate 101 (error_text fs img)),
         stdin := ls, slept := slept s + 100\<rparr>))
    \<and> main fs image_dir None st =
            (Inr (),
             py_print ''Thank you for trying the advanced image features!''
               (py_print ''========================================''
                 (py_print ''GT Terminal Advanced Image Demo - Complete''
                   (clear_screen
                     (snd (demo_animation fs image_dir None
                       (snd (demo_z_index fs image_dir
                         (snd (demo_alignment fs image_dir
                           (snd (demo_basic fs image_dir
                             (py_print (''Found ''
                                @ str_nat (length (glob fs image_dir ''*.jpg''
                                                   @ glob fs image_dir ''*.png''))
                                @ '' images in '' @ image_dir) st)))))))))))))
    \<and> exit_code (fst (main fs image_dir None st)) = 0"
proof -
  from find_sample_in_glob [OF sample] readable have unr: "node_at fs img \<noteq> Some Unreadable"
    by blast
  from find_sample_in_glob [OF sample]
  have some: "glob fs image_dir ''*.jpg'' @ glob fs image_dir ''*.png'' \<noteq> []"
    by auto
  have missing: "display_image fs path opts s =
          (Inr (), s\<lparr>stderr := stderr s @ ''Error: Image file not found: '' @ path @ [CHR 0x0A]\<rparr>)
        \<and> image_text fs path opts = []
        \<and> error_text fs path = ''Error: Image file not found: '' @ path @ [CHR 0x0A]"
    if "\<not> isfile fs path" for path opts s
    using that
    by (auto simp: display_image_not_file image_text_def error_text_def isfile_def NL_def
        split: option.splits node.splits)
  have shown: "display_image fs p opts s =
              (Inr (), s\<lparr>stdout := stdout s @ image_text fs p opts,
                          stderr := stderr s @ error_text fs p\<rparr>)"
    if "p \<in> set (glob fs image_dir ''*.jpg'' @ glob fs image_dir ''*.png'')" for p opts s
    using that readable by (intro display_image_effect) blast
  have basic: "demo_basic fs image_dir s =
          (Inr (), s\<lparr>stdout := stdout s @ CHR 0x1B # ''[2J'' @ CHR 0x1B # ''[H''
              @ ''GT Terminal Advanced Image Demo - Basic Display'' @ [CHR 0x0A]
              @ ''=============================================='' @ [CHR 0x0A] @ [CHR 0x0A]
              @ ''1. Default size (auto):'' @ [CHR 0x0A]
              @ image_text fs img [] @ replicate 8 (CHR 0x0A) @ [CHR 0x0A]
              @ ''2. Fixed width (400px):'' @ [CHR 0x0A]
              @ image_text fs img [(''width'', ''400px'')] @ replicate 8 (CHR 0x0A) @ [CHR 0x0A]
              @ ''3. Fixed height (200px):'' @ [CHR 0x0A]
              @ image_text fs img [(''height'', ''200px'')] @ replicate 8 (CHR 0x0A) @ [CHR 0x0A]
              @ ''4. Percentage width (50%):'' @ [CHR 0x0A]
              @ image_text fs img [(''width'', ''50%'')] @ replicate 8 (CHR 0x0A) @ [CHR 0x0A]
              @ ''Press Enter to continue...'' @ [CHR 0x0A],
            stderr := stderr s @ error_text fs img @ error_text fs img @ error_text fs img
              @ error_text fs img,
            stdin := ls\<rparr>)"
    if "stdin s = l # ls" for s l ls
    by (rule demo_basic_exact [OF sample unr that])
  have align: "demo_alignment fs image_dir s =
          (Inr (), s\<lparr>stdout := stdout s @ CHR 0x1B # ''[2J'' @ CHR 0x1B # ''[H''
              @ ''GT Terminal Advanced Image Demo - Alignment'' @ [CHR 0x0A]
              @ ''========================================='' @ [CHR 0x0A] @ [CHR 0x0A]
              @ ''1. Left alignment (default):'' @ [CHR 0x0A]
              @ image_text fs img [(''width'', ''200px''), (''align'', ''left'')]
              @ replicate 5 (CHR 0x0A) @ [CHR 0x0A]
              @ ''2. Center alignment:'' @ [CHR 0x0A]
              @ image_text fs img [(''width'', ''200px''), (''align'', ''center'')]
              @ replicate 5 (CHR 0x0A) @ [CHR 0x0A]
              @ ''3. Right alignment:'' @ [CHR 0x0A]
              @ image_text fs img [(''width'', ''200px''), (''align'', ''right'')]
              @ replicate 5 (CHR 0x0A) @ [CHR 0x0A]
              @ ''Press Enter to continue...'' @ [CHR 0x0A],
            stderr := stderr s @ error_text fs img @ error_text fs img @ error_text fs img,
            stdin := ls\<rparr>)"
    if "stdin s = l # ls" for s l ls
    by (rule demo_alignment_exact [OF sample unr that])
  have zidx: "demo_z_index fs image_dir s =
          (Inr (), s\<lparr>stdout := stdout s @ CHR 0x1B # ''[2J'' @ CHR 0x1B # ''[H''
              @ ''GT Terminal Advanced Image Demo - Z-index Layering'' @ [CHR 0x0A]
              @ ''================================================'' @ [CHR 0x0A] @ [CHR 0x0A]
              @ ''Displaying overlapping images with different z-index values:'' @ [CHR 0x0A]
              @ ''(Notice how they stack on top of each other)'' @ [CHR 0x0A] @ [CHR 0x0A]
              @ cursor_sequence 6 5
              @ image_text fs img1
                  [(''width'', ''40%''), (''z-index'', ''1''), (''name'', ''back_image'')]
              @ cursor_sequence 8 15
              @ image_text fs img2
                  [(''width'', ''40%''), (''z-index'', ''2''), (''name'', ''front_image'')]
              @ cursor_sequence 15 1
              @ ''Second image (z-index=2) appears on top of the first image (z-index=1)''
              @ [CHR 0x0A] @ [CHR 0x0A]
              @ ''Press Enter to continue...'' @ [CHR 0x0A],
            stderr := stderr s @ error_text fs img1 @ error_text fs img2,
            stdin := ls, slept := slept s + 5\<rparr>)"
    if "glob fs image_dir ''*.jpg'' @ glob fs image_dir ''*.png'' = img1 # img2 # rest \<and> stdin s = l # ls"
    for img1 img2 rest s l ls
  proof -
    from that have images: "glob fs image_dir ''*.jpg'' @ glob fs image_dir ''*.png'' = img1 # img2 # rest"
      and i: "stdin s = l # ls"
      by simp_all
    from images readable have "node_at fs img1 \<noteq> Some Unreadable"
      and "node_at fs img2 \<noteq> Some Unreadable"
      by simp_all
    from demo_z_index_exact [OF images this i] show ?thesis .
  qed
  have zsingle: "demo_z_index fs image_dir s =
          (Inr (), s\<lparr>stdout := stdout s @ CHR 0x1B # ''[2J'' @ CHR 0x1B # ''[H''
              @ ''GT Terminal Advanced Image Demo - Z-index Layering'' @ [CHR 0x0A]
              @ ''================================================'' @ [CHR 0x0A] @ [CHR 0x0A]
              @ ''Need at least 2 images for the z-index demo.'' @ [CHR 0x0A]\<rparr>)"
    if "glob fs image_dir ''*.jpg'' @ glob fs image_dir ''*.png'' = [img1]" for img1 s
    by (rule demo_z_index_single [OF that])
  have anim: "demo_animation fs image_dir None s =
      (Inr (), s\<lparr>stdout := stdout s @ CHR 0x1B # ''[2J'' @ CHR 0x1B # ''[H''
          @ ''GT Terminal Advanced Image Demo - Animation'' @ [CHR 0x0A]
          @ ''========================================='' @ [CHR 0x0A]
          @ ''Press Ctrl+C to stop the animation'' @ [CHR 0x0A] @ [CHR 0x0A]
            @ cursor_sequence 5 1 @ image_text fs img background_opts
            @ concat (map (frame_text fs img) [0..<100])
            @ cursor_sequence 25 1 @ ''Press Enter to continue...'' @ [CHR 0x0A],
         stderr := stderr s @ concat (replicate 101 (error_text fs img)),
         stdin := ls, slept := slept s + 100\<rparr>)"
    if "stdin s = l # ls" for s l ls
    by (rule demo_animation_complete [OF sample unr that])
  have m: "main fs image_dir None st =
            (Inr (),
             py_print ''Thank you for trying the advanced image features!''
               (py_print ''========================================''
                 (py_print ''GT Terminal Advanced Image Demo - Complete''
                   (clear_screen
                     (snd (demo_animation fs image_dir None
                       (snd (demo_z_index fs image_dir
                         (snd (demo_alignment fs image_dir
                           (snd (demo_basic fs image_dir
                             (py_print (''Found ''
                                @ str_nat (length (glob fs image_dir ''*.jpg''
                                                   @ glob fs image_dir ''*.png''))
                                @ '' images in '' @ image_dir) st)))))))))))))"
    by (rule main_exact [OF dir some readable inp])
  have e: "exit_code (fst (main fs image_dir None st)) = 0"
    unfolding m by simp
  from missing shown basic align zidx zsingle anim m e show ?thesis
    by blast
qed

theorem missing_image_does_not_abort_witness:
  "is_dir example_fs ''mixed''
   \<and> find_sample example_fs ''mixed'' = Some ''mixed/gone.jpg''
   \<and> glob example_fs ''mixed'' ''*.jpg'' @ glob example_fs ''mixed'' ''*.png''
       = [''mixed/gone.jpg'', ''mixed/b.png'']
   \<and> node_at example_fs ''mixed/gone.jpg'' \<noteq> Some Unreadable
   \<and> node_at example_fs ''mixed/b.png'' \<noteq> Some Unreadable
   \<and> 4 \<le> length (stdin four_enters)
   \<and> stdin four_enters = [] # [[], [], []]
   \<and> \<not> isfile example_fs ''mixed/gone.jpg''
   \<and> display_image example_fs ''mixed/gone.jpg'' [] four_enters =
       (Inr (), four_enters\<lparr>stderr :=
          ''Error: Image file not found: mixed/gone.jpg'' @ [CHR 0x0A]\<rparr>)
   \<and> demo_z_index example_fs ''mixed'' four_enters =
       (Inr (), four_enters\<lparr>stdout :=
          CHR 0x1B # ''[2J'' @ CHR 0x1B # ''[H''
          @ ''GT Terminal Advanced Image Demo - Z-index Layering'' @ [CHR 0x0A]
          @ ''================================================'' @ [CHR 0x0A] @ [CHR 0x0A]
          @ ''Displaying overlapping images with different z-index values:'' @ [CHR 0x0A]
          @ ''(Notice how they stack on top of each other)'' @ [CHR 0x0A] @ [CHR 0x0A]
          @ CHR 0x1B # ''[6;5H'' @ CHR 0x1B # ''[8;15H''
          @ CHR 0x1B # '']1337;File=inline=1;width=40%;z-index=2;name=front_image:iVBORw==''
          @ [CHR 0x07] @ CHR 0x1B # ''[15;1H''
          @ ''Second image (z-index=2) appears on top of the first image (z-index=1)''
          @ [CHR 0x0A] @ [CHR 0x0A]
          @ ''Press Enter to continue...'' @ [CHR 0x0A],
          stderr := ''Error: Image file not found: mixed/gone.jpg'' @ [CHR 0x0A],
          stdin := [[], [], []], slept := 5\<rparr>)
   \<and> exit_code (fst (main example_fs ''mixed'' None four_enters)) = 0
   \<and> is_dir example_fs ''ghost''
   \<and> find_sample example_fs ''ghost'' = Some ''ghost/x.jpg''
   \<and> glob example_fs ''ghost'' ''*.jpg'' @ glob example_fs ''ghost'' ''*.png'' = [''ghost/x.jpg'']
   \<and> node_at example_fs ''ghost/x.jpg'' \<noteq> Some Unreadable
   \<and> demo_z_index example_fs ''ghost'' four_enters =
       (Inr (), four_enters\<lparr>stdout :=
          CHR 0x1B # ''[2J'' @ CHR 0x1B # ''[H''
          @ ''GT Terminal Advanced Image Demo - Z-index Layering'' @ [CHR 0x0A]
          @ ''================================================'' @ [CHR 0x0A] @ [CHR 0x0A]
          @ ''Need at least 2 images for the z-index demo.'' @ [CHR 0x0A]\<rparr>)
   \<and> exit_code (fst (main example_fs ''ghost'' None four_enters)) = 0"
proof -
  have d: "is_dir example_fs ''mixed''"
    by (simp add: is_dir_def example_fs_def)
  have s: "find_sample example_fs ''mixed'' = Some ''mixed/gone.jpg''"
    by (simp add: find_sample_def example_fs_def)
  have g: "glob example_fs ''mixed'' ''*.jpg'' @ glob example_fs ''mixed'' ''*.png''
       = [''mixed/gone.jpg'', ''mixed/b.png'']"
    by (simp add: example_fs_def)
  have u: "node_at example_fs ''mixed/gone.jpg'' \<noteq> Some Unreadable"
    "node_at example_fs ''mixed/b.png'' \<noteq> Some Unreadable"
    by (simp_all add: example_fs_def)
  have r: "\<forall>p \<in> set (glob example_fs ''mixed'' ''*.jpg'' @ glob example_fs ''mixed'' ''*.png'').
      node_at example_fs p \<noteq> Some Unreadable"
    using u by (simp add: g)
  have n: "4 \<le> length (stdin four_enters)"
    by (simp add: four_enters_def)
  have i: "stdin four_enters = [] # [[], [], []]"
    by (simp add: four_enters_def)
  have m: "\<not> isfile example_fs ''mixed/gone.jpg''"
    by (simp add: isfile_def example_fs_def)
  note T = missing_image_does_not_abort [OF d s r n]
  from T [THEN conjunct1, rule_format, OF m, of "[]" four_enters]
  have a: "display_image example_fs ''mixed/gone.jpg'' [] four_enters =
       (Inr (), four_enters\<lparr>stderr :=
          ''Error: Image file not found: mixed/gone.jpg'' @ [CHR 0x0A]\<rparr>)"
    by (simp add: four_enters_def)
  have node: "node_at example_fs ''mixed/b.png'' = Some (RegFile [0x89, 0x50, 0x4E, 0x47])"
    "node_at example_fs ''mixed/gone.jpg'' = None"
    by (simp_all add: example_fs_def)
  have enc: "b64encode [0x89, 0x50, 0x4E, 0x47] = ''iVBORw==''"
    by (simp add: b64_char_def b64_alphabet_def)
  have img: "image_text example_fs ''mixed/gone.jpg''
        [(''width'', ''40%''), (''z-index'', ''1''), (''name'', ''back_image'')] = []"
    "image_text example_fs ''mixed/b.png''
        [(''width'', ''40%''), (''z-index'', ''2''), (''name'', ''front_image'')] =
      CHR 0x1B # '']1337;File=inline=1;width=40%;z-index=2;name=front_image:iVBORw=='' @ [CHR 0x07]"
    by (simp_all add: image_text_def node enc escape_sequence_def build_opts_def ESC_def BEL_def
        del: b64encode.simps)
  have err: "error_text example_fs ''mixed/gone.jpg''
      = ''Error: Image file not found: mixed/gone.jpg'' @ [CHR 0x0A]"
    "error_text example_fs ''mixed/b.png'' = []"
    by (simp_all add: error_text_def isfile_def node NL_def)
  have cur: "cursor_sequence 6 5 = CHR 0x1B # ''[6;5H''"
    "cursor_sequence 8 15 = CHR 0x1B # ''[8;15H''"
    "cursor_sequence 15 1 = CHR 0x1B # ''[15;1H''"
    by (simp_all add: cursor_sequence_def decimal_def str_nat.simps digit_char_def ESC_def)
  have gi: "glob example_fs ''mixed'' ''*.jpg'' @ glob example_fs ''mixed'' ''*.png''
       = ''mixed/gone.jpg'' # ''mixed/b.png'' # [] \<and> stdin four_enters = [] # [[], [], []]"
    using g i by simp
  from T [THEN conjunct2, THEN conjunct2, THEN conjunct2, THEN conjunct2, THEN conjunct1,
      rule_format, OF gi]
  have z: "demo_z_index example_fs ''mixed'' four_enters =
       (Inr (), four_enters\<lparr>stdout :=
          CHR 0x1B # ''[2J'' @ CHR 0x1B # ''[H''
          @ ''GT Terminal Advanced Image Demo - Z-index Layering'' @ [CHR 0x0A]
          @ ''================================================'' @ [CHR 0x0A] @ [CHR 0x0A]
          @ ''Displaying overlapping images with different z-index values:'' @ [CHR 0x0A]
          @ ''(Notice how they stack on top of each other)'' @ [CHR 0x0A] @ [CHR 0x0A]
          @ CHR 0x1B # ''[6;5H'' @ CHR 0x1B # ''[8;15H''
          @ CHR 0x1B # '']1337;File=inline=1;width=40%;z-index=2;name=front_image:iVBORw==''
          @ [CHR 0x07] @ CHR 0x1B # ''[15;1H''
          @ ''Second image (z-index=2) appears on top of the first image (z-index=1)''
          @ [CHR 0x0A] @ [CHR 0x0A]
          @ ''Press Enter to continue...'' @ [CHR 0x0A],
          stderr := ''Error: Image file not found: mixed/gone.jpg'' @ [CHR 0x0A],
          stdin := [[], [], []], slept := 5\<rparr>)"
    by (simp add: img err cur four_enters_def)
  from T have e: "exit_code (fst (main example_fs ''mixed'' None four_enters)) = 0"
    by blast
  have d': "is_dir example_fs ''ghost''"
    by (simp add: is_dir_def example_fs_def)
  have s': "find_sample example_fs ''ghost'' = Some ''ghost/x.jpg''"
    by (simp add: find_sample_def example_fs_def)
  have g': "glob example_fs ''ghost'' ''*.jpg'' @ glob example_fs ''ghost'' ''*.png''
      = [''ghost/x.jpg'']"
    by (simp add: example_fs_def)
  have u': "node_at example_fs ''ghost/x.jpg'' \<noteq> Some Unreadable"
    by (simp add: example_fs_def)
  have r': "\<forall>p \<in> set (glob example_fs ''ghost'' ''*.jpg'' @ glob example_fs ''ghost'' ''*.png'').
      node_at example_fs p \<noteq> Some Unreadable"
    using u' by (simp add: g')
  note T' = missing_image_does_not_abort [OF d' s' r' n]
  from T' [THEN conjunct2, THEN conjunct2, THEN conjunct2, THEN conjunct2, THEN conjunct2,
      THEN conjunct1, rule_format, OF g', of four_enters]
  have z': "demo_z_index example_fs ''ghost'' four_enters =
       (Inr (), four_enters\<lparr>stdout :=
          CHR 0x1B # ''[2J'' @ CHR 0x1B # ''[H''
          @ ''GT Terminal Advanced Image Demo - Z-index Layering'' @ [CHR 0x0A]
          @ ''================================================'' @ [CHR 0x0A] @ [CHR 0x0A]
          @ ''Need at least 2 images for the z-index demo.'' @ [CHR 0x0A]\<rparr>)"
    by (simp add: four_enters_def)
  from T' have e': "exit_code (fst (main example_fs ''ghost'' None four_enters)) = 0"
    by blast
  from d s g u n i m a z e d' s' g' u' z' e' show ?thesis by blast
qed

end
